theory Spec2Isabelle
  imports Complex_Main
begin

section \<open>Document-permission synchronisation: data model\<close>

text \<open>
  The development follows
  \<^verbatim>\<open>backend/ee/onyx/background/celery/tasks/doc_permission_syncing/tasks.py\<close>.
  Timestamps (\<^verbatim>\<open>datetime\<close> values, all timezone-aware) are rational numbers of
  seconds since the epoch; \<^verbatim>\<open>timedelta(seconds=n)\<close> is the number \<open>n\<close>.
  Enum tags of \<^verbatim>\<open>DocumentSource\<close> are strings.
\<close>

type_synonym timestamp = rat
type_synonym DocumentSource = string

datatype AccessType = PUBLIC | PRIVATE | SYNC

text \<open>
  \<^verbatim>\<open>ConnectorCredentialPairStatus\<close> is declared in \<^verbatim>\<open>onyx.db.enums\<close>; the
  code here only compares a status with \<^verbatim>\<open>ACTIVE\<close>, so every other member is
  kept by its name.
\<close>

datatype ConnectorCredentialPairStatus = ACTIVE | OtherStatus string

record ConnectorCredentialPair =
  cc_id :: int
  connector_id :: int
  credential_id :: int
  connector_source :: DocumentSource
  access_type :: AccessType
  status :: ConnectorCredentialPairStatus
  last_successful_index_time :: "timestamp option"
  last_time_perm_sync :: "timestamp option"

text \<open>
  Python exceptions by class and message. All are instances of \<^verbatim>\<open>Exception\<close>,
  the class that the handlers of this module catch; \<^verbatim>\<open>RetryError\<close> carries the
  exception of the last attempt.
\<close>

datatype exn =
    ValueError string
  | ValidationError
  | LockError
  | RetryError exn
  | OtherError string

record ExternalAccess =
  external_user_emails :: "string list"
  external_user_group_ids :: "string list"
  is_public :: bool

record DocExternalAccess =
  doc_id :: string
  external_access :: ExternalAccess

text \<open>
  The lazy sequence returned by a \<^verbatim>\<open>doc_sync_func\<close>: the records it yields, and
  the exception that ends the iteration early when it raises.
\<close>

datatype produced = Yield DocExternalAccess | Raise exn

record DocSyncConfig =
  doc_sync_frequency :: int
  initial_index_should_sync :: bool
  doc_sync_func :: "ConnectorCredentialPair \<Rightarrow> produced list"

record SyncConfig =
  doc_sync_config :: "DocSyncConfig option"
  censoring_config :: "unit option"

text \<open>
  \<^verbatim>\<open>get_source_perm_sync_config\<close> is a registry lookup by source; the registry is a
  parameter of every function that calls it.
\<close>

type_synonym registry = "DocumentSource \<Rightarrow> SyncConfig option"

section \<open>Due policy\<close>

text \<open>Python's \<^verbatim>\<open>int(x)\<close> on a number: truncation towards zero.\<close>

definition py_int :: "rat \<Rightarrow> int" where
  "py_int x = (if 0 \<le> x then \<lfloor>x\<rfloor> else \<lceil>x\<rceil>)"

text \<open>
  \<^verbatim>\<open>_is_external_doc_permissions_sync_due(cc_pair)\<close>. The registry, the value of
  \<^verbatim>\<open>OnyxRuntime.get_doc_permission_sync_multiplier()\<close> and the reading of
  \<^verbatim>\<open>datetime.now(timezone.utc)\<close> are parameters.
\<close>

definition is_external_doc_permissions_sync_due ::
  "registry \<Rightarrow> rat \<Rightarrow> timestamp \<Rightarrow> ConnectorCredentialPair \<Rightarrow> bool" where
  "is_external_doc_permissions_sync_due reg multiplier now cc_pair =
    (if access_type cc_pair \<noteq> SYNC then False
     else if status cc_pair \<noteq> ACTIVE then False
     else (case reg (connector_source cc_pair) of
       None \<Rightarrow> False
     | Some sync_config \<Rightarrow>
        (case doc_sync_config sync_config of
           None \<Rightarrow> False
         | Some dsc \<Rightarrow>
            if initial_index_should_sync dsc \<and> last_successful_index_time cc_pair = None
            then False
            else (case last_time_perm_sync cc_pair of
              None \<Rightarrow> True
            | Some last_perm_sync \<Rightarrow>
               (let source_sync_period = doc_sync_frequency dsc * py_int multiplier;
                    next_sync = last_perm_sync + of_int source_sync_period
                in (if next_sync \<le> now then True else False))))))"

text \<open>
  The due policy in the words of the specification, section 4.2.1: the period is
  \<open>doc_sync_frequency \<times> runtime_multiplier\<close>.
\<close>

definition due_policy_spec ::
  "registry \<Rightarrow> rat \<Rightarrow> timestamp \<Rightarrow> ConnectorCredentialPair \<Rightarrow> bool" where
  "due_policy_spec reg multiplier now cc_pair =
    (access_type cc_pair = SYNC \<and> status cc_pair = ACTIVE \<and>
     (case reg (connector_source cc_pair) of
        None \<Rightarrow> False
      | Some sync_config \<Rightarrow>
         (case doc_sync_config sync_config of
            None \<Rightarrow> False
          | Some dsc \<Rightarrow>
             (if initial_index_should_sync dsc
              then last_successful_index_time cc_pair \<noteq> None else True) \<and>
             (case last_time_perm_sync cc_pair of
                None \<Rightarrow> True
              | Some t \<Rightarrow> t + of_int (doc_sync_frequency dsc) * multiplier \<le> now))))"

section \<open>Fence store\<close>

text \<open>
  \<^verbatim>\<open>RedisConnectorPermissionSyncPayload\<close>, the value of a fence; the field
  \<^verbatim>\<open>id\<close> is named \<open>payload_id\<close>.
\<close>

record RedisConnectorPermissionSyncPayload =
  payload_id :: string
  submitted :: timestamp
  started :: "timestamp option"
  celery_task_id :: "string option"

text \<open>
  What a fence key holds: bytes that the payload schema rejects, or bytes that parse to
  a payload.
\<close>

datatype fence_value = Malformed | WellFormed RedisConnectorPermissionSyncPayload

text \<open>
  Modelled from the spec: the statuses of a sync record (section 3) and the two telemetry
  record types (section 6); their enums are declared in \<^verbatim>\<open>onyx.db.enums\<close> and
  \<^verbatim>\<open>onyx.utils.telemetry\<close>.
\<close>

datatype SyncStatus = IN_PROGRESS | SUCCESS | FAILURE

datatype RecordType = PERMISSION_SYNC_PROGRESS | PERMISSION_SYNC_COMPLETE

text \<open>
  The Redis locks: the per-pair permission sync lock (prefix
  \<^verbatim>\<open>CONNECTOR_DOC_PERMISSIONS_SYNC_LOCK_PREFIX\<close> and the pair id) and a function lock
  (prefix \<^verbatim>\<open>DANSWER_REDIS_FUNCTION_LOCK_PREFIX\<close> and a name).
\<close>

datatype lock = SyncLock int | FunctionLock string

text \<open>
  Calls that leave the process, in the order they are made: mutations of the fence
  store, database writes, telemetry records, enqueued tasks and lock releases.
\<close>

datatype call =
    SetFence int "RedisConnectorPermissionSyncPayload option"
  | SetActive int
  | GeneratorClear int
  | TasksetClear int
  | SetGeneratorComplete int int
  | Reset int
  | UpdateDb int DocExternalAccess
  | InsertSyncRecord int
  | SendTask int string
  | MarkCcPairAsPermissionsSynced int "timestamp option"
  | UpdateSyncRecordStatus int SyncStatus int
  | OptionalTelemetry RecordType "(string \<times> int) list"
  | LockRelease lock

text \<open>
  The Redis keys of the permission syncer, by connector-credential pair id, together
  with the log of calls. \<open>taskset\<close> lists the members of the set in scan order;
  \<open>delete_fenced\<close> and \<open>prune_fenced\<close> are the fences of the two other
  lifecycle operations.
\<close>

record world =
  fence :: "int \<Rightarrow> fence_value option"
  active_signal :: "int \<Rightarrow> bool"
  taskset :: "int \<Rightarrow> string list"
  generator_complete :: "int \<Rightarrow> int option"
  active_fences :: "int set"
  delete_fenced :: "int \<Rightarrow> bool"
  prune_fenced :: "int \<Rightarrow> bool"
  calls :: "call list"

definition log_call :: "call \<Rightarrow> world \<Rightarrow> world" where
  "log_call c w = w\<lparr>calls := calls w @ [c]\<rparr>"

text \<open>
  Modelled from the spec: the operations of \<^verbatim>\<open>RedisConnectorPermissionSync\<close>
  (module \<^verbatim>\<open>onyx.redis.redis_connector_doc_perm_sync\<close>), after section 4.1.
  \<open>fenced\<close>: the fence key exists.
\<close>

definition fenced :: "int \<Rightarrow> world \<Rightarrow> bool" where
  "fenced c w = (fence w c \<noteq> None)"

text \<open>
  Modelled from the spec: \<^verbatim>\<open>payload\<close> decodes the fence, gives none when the key
  is absent, and fails with a schema error when the stored value does not parse.
\<close>

definition payload :: "int \<Rightarrow> world \<Rightarrow> exn + RedisConnectorPermissionSyncPayload option" where
  "payload c w =
     (case fence w c of
        None \<Rightarrow> Inr None
      | Some Malformed \<Rightarrow> Inl ValidationError
      | Some (WellFormed p) \<Rightarrow> Inr (Some p))"

text \<open>
  Modelled from the spec: \<^verbatim>\<open>set_fence(payload | none)\<close> creates, overwrites or
  deletes the fence; a written fence is a member of \<^verbatim>\<open>active_fences\<close>; on delete
  the entry leaves \<^verbatim>\<open>active_fences\<close> and \<^verbatim>\<open>generator_complete\<close> and the
  taskset are cleared.
\<close>

definition set_fence ::
  "int \<Rightarrow> RedisConnectorPermissionSyncPayload option \<Rightarrow> world \<Rightarrow> world" where
  "set_fence c p w =
     log_call (SetFence c p)
       (case p of
          None \<Rightarrow> w\<lparr>fence := (fence w)(c := None),
                      active_fences := active_fences w - {c},
                      generator_complete := (generator_complete w)(c := None),
                      taskset := (taskset w)(c := [])\<rparr>
        | Some q \<Rightarrow> w\<lparr>fence := (fence w)(c := Some (WellFormed q)),
                        active_fences := insert c (active_fences w)\<rparr>)"

text \<open>
  Modelled from the spec: \<^verbatim>\<open>set_active\<close> sets the active signal; its expiry after
  five minutes is a step of the environment.
\<close>

definition set_active :: "int \<Rightarrow> world \<Rightarrow> world" where
  "set_active c w = log_call (SetActive c) (w\<lparr>active_signal := (active_signal w)(c := True)\<rparr>)"

text \<open>
  Modelled from the spec: \<^verbatim>\<open>active\<close> is the existence check on the active signal.
\<close>

definition active :: "int \<Rightarrow> world \<Rightarrow> bool" where
  "active c w = active_signal w c"

text \<open>
  Modelled from the spec: \<^verbatim>\<open>generator_complete\<close> is a single integer, null until
  set; \<^verbatim>\<open>generator_clear\<close> clears it.
\<close>

definition generator_clear :: "int \<Rightarrow> world \<Rightarrow> world" where
  "generator_clear c w =
     log_call (GeneratorClear c) (w\<lparr>generator_complete := (generator_complete w)(c := None)\<rparr>)"

text \<open>
  Modelled from the spec: \<^verbatim>\<open>taskset_clear\<close> empties the taskset.
\<close>

definition taskset_clear :: "int \<Rightarrow> world \<Rightarrow> world" where
  "taskset_clear c w = log_call (TasksetClear c) (w\<lparr>taskset := (taskset w)(c := [])\<rparr>)"

text \<open>
  Modelled from the spec: the setter of \<^verbatim>\<open>generator_complete\<close> stores the integer.
\<close>

definition set_generator_complete :: "int \<Rightarrow> int \<Rightarrow> world \<Rightarrow> world" where
  "set_generator_complete c n w =
     log_call (SetGeneratorComplete c n)
       (w\<lparr>generator_complete := (generator_complete w)(c := Some n)\<rparr>)"

text \<open>
  Modelled from the spec: \<^verbatim>\<open>get_remaining\<close> is the cardinality of the taskset.
\<close>

definition get_remaining :: "int \<Rightarrow> world \<Rightarrow> int" where
  "get_remaining c w = int (length (remdups (taskset w c)))"

text \<open>
  Modelled from the spec: \<^verbatim>\<open>reset\<close> deletes the payload, the active signal, the
  taskset and \<^verbatim>\<open>generator_complete\<close>, and removes the fence from
  \<^verbatim>\<open>active_fences\<close>.
\<close>

definition reset :: "int \<Rightarrow> world \<Rightarrow> world" where
  "reset c w =
     log_call (Reset c)
       (w\<lparr>fence := (fence w)(c := None),
          active_signal := (active_signal w)(c := False),
          taskset := (taskset w)(c := []),
          generator_complete := (generator_complete w)(c := None),
          active_fences := active_fences w - {c}\<rparr>)"

text \<open>
  Resolving a fence key: \<^verbatim>\<open>RedisConnector.get_id_from_fence_key\<close> (module
  \<^verbatim>\<open>onyx.redis.redis_connector\<close>), a parameter, and Python's \<^verbatim>\<open>int\<close> on its
  result, which raises \<^verbatim>\<open>ValueError\<close> where \<open>int_of_str\<close> gives \<open>None\<close>.
\<close>

record key_parser =
  get_id_from_fence_key :: "string \<Rightarrow> string option"
  int_of_str :: "string \<Rightarrow> int option"

section \<open>Progress monitor\<close>

text \<open>
  \<^verbatim>\<open>monitor_ccpair_permissions_taskset(tenant_id, key_bytes, r, db_session)\<close>.
  The result is the exception raised, if any, and the world after the call. The
  database functions and the telemetry sink are logged as calls.
\<close>

definition monitor_ccpair_permissions_taskset ::
  "key_parser \<Rightarrow> string \<Rightarrow> world \<Rightarrow> (exn + unit) \<times> world" where
  "monitor_ccpair_permissions_taskset kp fence_key w =
     (case get_id_from_fence_key kp fence_key of
        None \<Rightarrow> (Inr (), w)
      | Some cc_pair_id_str \<Rightarrow>
     (case int_of_str kp cc_pair_id_str of
        None \<Rightarrow> (Inl (ValueError ''invalid literal for int()''), w)
      | Some cc_pair_id \<Rightarrow>
     if \<not> fenced cc_pair_id w then (Inr (), w)
     else (case generator_complete w cc_pair_id of
        None \<Rightarrow> (Inr (), w)
      | Some initial \<Rightarrow>
     (case payload cc_pair_id w of
        Inl e \<Rightarrow> (if e = ValidationError then (Inr (), w) else (Inl e, w))
      | Inr None \<Rightarrow> (Inr (), w)
      | Inr (Some pl) \<Rightarrow>
         (let remaining = get_remaining cc_pair_id w;
              w1 = log_call (OptionalTelemetry PERMISSION_SYNC_PROGRESS
                     [(''cc_pair_id'', cc_pair_id), (''total_docs_synced'', initial),
                      (''remaining_docs_to_sync'', remaining)]) w
          in if 0 < remaining then (Inr (), w1)
             else
               (let w2 = log_call (MarkCcPairAsPermissionsSynced cc_pair_id (started pl)) w1;
                    w3 = log_call (OptionalTelemetry PERMISSION_SYNC_COMPLETE
                           [(''cc_pair_id'', cc_pair_id)]) w2;
                    w4 = log_call (UpdateSyncRecordStatus cc_pair_id SUCCESS initial) w3
                in (Inr (), reset cc_pair_id w4)))))))"

section \<open>Fence validator\<close>

text \<open>
  The scan of the taskset in \<^verbatim>\<open>validate_permission_sync_fence\<close>: the pair
  \<open>(tasks_scanned, tasks_not_in_celery)\<close> after the members still to visit.
\<close>

fun scan_taskset :: "string set \<Rightarrow> string set \<Rightarrow> string list \<Rightarrow> nat \<times> nat \<Rightarrow> nat \<times> nat" where
  "scan_taskset queued_tasks reserved_tasks [] acc = acc"
| "scan_taskset queued_tasks reserved_tasks (member # rest) (tasks_scanned, tasks_not_in_celery) =
     (if member \<in> queued_tasks
      then scan_taskset queued_tasks reserved_tasks rest (tasks_scanned + 1, tasks_not_in_celery)
      else if member \<in> reserved_tasks
      then scan_taskset queued_tasks reserved_tasks rest (tasks_scanned + 1, tasks_not_in_celery)
      else scan_taskset queued_tasks reserved_tasks rest
             (tasks_scanned + 1, tasks_not_in_celery + 1))"

text \<open>
  \<^verbatim>\<open>validate_permission_sync_fence(tenant_id, key_bytes, queued_tasks, reserved_tasks, r, r_celery)\<close>.
  \<open>celery_find_task\<close> tells whether a task id is in the generator queue. A
  \<^verbatim>\<open>celery_task_id\<close> that is null or the empty string is falsy.
\<close>

definition validate_permission_sync_fence ::
  "key_parser \<Rightarrow> (string \<Rightarrow> bool) \<Rightarrow> string \<Rightarrow> string set \<Rightarrow> string set \<Rightarrow> world
     \<Rightarrow> (exn + unit) \<times> world" where
  "validate_permission_sync_fence kp celery_find_task fence_key queued_tasks reserved_tasks w =
     (case get_id_from_fence_key kp fence_key of
        None \<Rightarrow> (Inr (), w)
      | Some cc_pair_id_str \<Rightarrow>
     (case int_of_str kp cc_pair_id_str of
        None \<Rightarrow> (Inl (ValueError ''invalid literal for int()''), w)
      | Some cc_pair_id \<Rightarrow>
     if \<not> fenced cc_pair_id w then (Inr (), w)
     else (case payload cc_pair_id w of
        Inl e \<Rightarrow> (if e = ValidationError then (Inr (), reset cc_pair_id w) else (Inl e, w))
      | Inr None \<Rightarrow> (Inr (), w)
      | Inr (Some pl) \<Rightarrow>
     (case celery_task_id pl of
        None \<Rightarrow> (Inr (), w)
      | Some task_id \<Rightarrow>
     if task_id = [] then (Inr (), w)
     else if celery_find_task task_id then (Inr (), set_active cc_pair_id w)
     else if task_id \<in> reserved_tasks then (Inr (), set_active cc_pair_id w)
     else
       (case scan_taskset queued_tasks reserved_tasks (taskset w cc_pair_id) (0, 0) of
          (tasks_scanned, tasks_not_in_celery) \<Rightarrow>
            if 0 < tasks_scanned \<and> tasks_not_in_celery = 0
            then (Inr (), set_active cc_pair_id w)
            else if active cc_pair_id w then (Inr (), w)
            else (Inr (), reset cc_pair_id w))))))"

section \<open>Generator worker\<close>

text \<open>
  The fence readiness wait at the head of
  \<^verbatim>\<open>connector_permission_sync_generator_task\<close>. Time is counted in microseconds:
  \<open>elapsed\<close> is \<^verbatim>\<open>time.monotonic() - start\<close> as read at the top of iteration
  \<open>i\<close>, \<open>timeout\<close> is \<^verbatim>\<open>CELERY_TASK_WAIT_FOR_FENCE_TIMEOUT\<close> in seconds, and
  between two readings lie \<^verbatim>\<open>sleep(1)\<close> and the latency \<open>latency i\<close> of the
  iteration. \<open>polls i\<close> is what the fence key holds when iteration \<open>i\<close> reads
  \<^verbatim>\<open>fenced\<close> and then \<^verbatim>\<open>payload\<close>; other workers write the key meanwhile.
\<close>

function wait_for_fence ::
  "nat \<Rightarrow> (nat \<Rightarrow> fence_value option \<times> fence_value option) \<Rightarrow> (nat \<Rightarrow> nat) \<Rightarrow> nat \<Rightarrow> nat
     \<Rightarrow> exn + RedisConnectorPermissionSyncPayload" where
  "wait_for_fence timeout polls latency i elapsed =
     (if timeout * 1000000 < elapsed
      then Inl (ValueError ''timed out waiting for fence to be ready'')
      else if fst (polls i) = None
      then Inl (ValueError ''fence not found'')
      else (case snd (polls i) of
              None \<Rightarrow> Inl (ValueError ''payload invalid or not found'')
            | Some Malformed \<Rightarrow> Inl ValidationError
            | Some (WellFormed pl) \<Rightarrow>
                (if celery_task_id pl = None
                 then wait_for_fence timeout polls latency (Suc i)
                        (elapsed + 1000000 + latency i)
                 else Inr pl)))"
  by pat_completeness auto
termination
  by (relation "measure (\<lambda>(timeout, polls, latency, i, elapsed).
        timeout * 1000000 + 1 - elapsed)") auto

text \<open>
  What the task meets outside the fence store: the clock and the fence key during
  the wait, the outcome of \<^verbatim>\<open>lock.acquire(blocking=False)\<close>, the database lookup
  \<^verbatim>\<open>get_connector_credential_pair_from_id\<close>, \<^verbatim>\<open>validate_ccpair_for_user\<close>
  (a flag, or the exception it raises), the registry, the reading of
  \<^verbatim>\<open>datetime.now(timezone.utc)\<close>, the exception raised by
  \<^verbatim>\<open>lock.reacquire()\<close> in \<^verbatim>\<open>PermissionSyncCallback.__init__\<close> if any, the
  exception raised by the ACL upserter for a record if any, and \<^verbatim>\<open>lock.owned()\<close>
  at exit. The heartbeat's renewals of the active signal inside a
  \<^verbatim>\<open>doc_sync_func\<close> are not part of the model.
\<close>

record generator_env =
  wait_timeout :: nat
  polls :: "nat \<Rightarrow> fence_value option \<times> fence_value option"
  latency :: "nat \<Rightarrow> nat"
  first_elapsed :: nat
  lock_acquire :: bool
  get_connector_credential_pair_from_id :: "int \<Rightarrow> ConnectorCredentialPair option"
  validate_ccpair_for_user :: "ConnectorCredentialPair \<Rightarrow> exn + bool"
  get_source_perm_sync_config :: registry
  now_utc :: timestamp
  callback_init :: "exn option"
  upserter_error :: "DocExternalAccess \<Rightarrow> exn option"
  lock_owned :: bool

text \<open>
  Modelled from the spec: \<^verbatim>\<open>RedisConnectorPermissionSync.update_db\<close> invokes the
  ACL upserter synchronously for each record of \<^verbatim>\<open>new_permissions\<close>; an error of
  the upserter propagates (section 4.3, step 8).
\<close>

fun update_db ::
  "(DocExternalAccess \<Rightarrow> exn option) \<Rightarrow> int \<Rightarrow> DocExternalAccess list \<Rightarrow> world
     \<Rightarrow> (exn + unit) \<times> world" where
  "update_db upserter c [] w = (Inr (), w)"
| "update_db upserter c (d # ds) w =
     (let w1 = log_call (UpdateDb c d) w
      in case upserter d of
           Some e \<Rightarrow> (Inl e, w1)
         | None \<Rightarrow> update_db upserter c ds w1)"

text \<open>
  The loop over \<^verbatim>\<open>document_external_accesses\<close>: the result is the exception that
  ends it, or the final \<^verbatim>\<open>tasks_generated\<close>.
\<close>

fun generate_tasks ::
  "generator_env \<Rightarrow> int \<Rightarrow> produced list \<Rightarrow> int \<Rightarrow> world \<Rightarrow> (exn + int) \<times> world" where
  "generate_tasks env c [] tasks_generated w = (Inr tasks_generated, w)"
| "generate_tasks env c (Raise e # rest) tasks_generated w = (Inl e, w)"
| "generate_tasks env c (Yield doc_external_access # rest) tasks_generated w =
     (case update_db (upserter_error env) c [doc_external_access] w of
        (Inl e, w1) \<Rightarrow> (Inl e, w1)
      | (Inr u, w1) \<Rightarrow> generate_tasks env c rest (tasks_generated + 1) w1)"

text \<open>
  The body of the \<^verbatim>\<open>try\<close> statement of the task: \<open>Inr ()\<close> for a
  \<^verbatim>\<open>return\<close> or for reaching its end, \<open>Inl e\<close> for a raised exception.
\<close>

definition sync_body :: "generator_env \<Rightarrow> int \<Rightarrow> world \<Rightarrow> (exn + unit) \<times> world" where
  "sync_body env cc_pair_id w =
     (case get_connector_credential_pair_from_id env cc_pair_id of
        None \<Rightarrow> (Inl (ValueError ''No connector credential pair found''), w)
      | Some cc_pair \<Rightarrow>
     (case validate_ccpair_for_user env cc_pair of
        Inl e \<Rightarrow> (Inl e, w)
      | Inr created \<Rightarrow>
     (case get_source_perm_sync_config env (connector_source cc_pair) of
        None \<Rightarrow> (Inr (), w)
      | Some sync_config \<Rightarrow>
     (case doc_sync_config sync_config of
        None \<Rightarrow>
          (if censoring_config sync_config \<noteq> None then (Inr (), w)
           else (Inl (ValueError ''No doc sync func found''), w))
      | Some dsc \<Rightarrow>
     (case payload cc_pair_id w of
        Inl e \<Rightarrow> (Inl e, w)
      | Inr None \<Rightarrow> (Inl (ValueError ''No fence payload found''), w)
      | Inr (Some pl) \<Rightarrow>
         (let new_payload = \<lparr> payload_id = payload_id pl, submitted = submitted pl,
                started = Some (now_utc env), celery_task_id = celery_task_id pl \<rparr>;
              w1 = set_fence cc_pair_id (Some new_payload) w
          in (case callback_init env of
                Some e \<Rightarrow> (Inl e, w1)
              | None \<Rightarrow>
                 (case generate_tasks env cc_pair_id (doc_sync_func dsc cc_pair) 0 w1 of
                    (Inl e, w2) \<Rightarrow> (Inl e, w2)
                  | (Inr tasks_generated, w2) \<Rightarrow>
                      (Inr (), set_generator_complete cc_pair_id tasks_generated w2)))))))))"

text \<open>
  \<^verbatim>\<open>connector_permission_sync_generator_task(self, cc_pair_id, tenant_id)\<close>: the
  wait, the lock, the \<^verbatim>\<open>try\<close> body, the \<^verbatim>\<open>except Exception\<close> handler (clean
  up and re-raise) and the \<^verbatim>\<open>finally\<close> clause (release the lock if still owned).
\<close>

definition connector_permission_sync_generator_task ::
  "generator_env \<Rightarrow> int \<Rightarrow> world \<Rightarrow> (exn + unit) \<times> world" where
  "connector_permission_sync_generator_task env cc_pair_id w =
     (case wait_for_fence (wait_timeout env) (polls env) (latency env) 0 (first_elapsed env) of
        Inl e \<Rightarrow> (Inl e, w)
      | Inr pl \<Rightarrow>
         if \<not> lock_acquire env then (Inr (), w)
         else
           (case sync_body env cc_pair_id w of
              (r, w1) \<Rightarrow>
                (let w2 = (case r of
                             Inl e \<Rightarrow> set_fence cc_pair_id None
                                       (taskset_clear cc_pair_id (generator_clear cc_pair_id w1))
                           | Inr u \<Rightarrow> w1)
                 in (r, if lock_owned env
                        then log_call (LockRelease (SyncLock cc_pair_id)) w2 else w2))))"

section \<open>Creating a permission sync task\<close>

text \<open>
  What \<^verbatim>\<open>try_creating_permissions_sync_task\<close> meets outside the fence store: the
  outcome of \<^verbatim>\<open>lock.acquire(blocking_timeout=t)\<close> as a function of \<open>t\<close> (seconds),
  which is a flag or the exception the Redis client raises,
  \<^verbatim>\<open>generator_task_key\<close>, the values of \<^verbatim>\<open>uuid4()\<close>,
  \<^verbatim>\<open>make_short_id()\<close> and \<^verbatim>\<open>datetime.now(timezone.utc)\<close>, the id returned by
  \<^verbatim>\<open>app.send_task\<close> for a task id or the exception it raises, the outcome of
  \<^verbatim>\<open>lock.owned()\<close> at exit (a flag or an exception) and the exception raised by
  \<^verbatim>\<open>lock.release()\<close>, if any. An exception of \<^verbatim>\<open>insert_sync_record\<close> is
  logged and swallowed by the inner \<^verbatim>\<open>try\<close>, so the call is logged whatever its
  outcome.
\<close>

record creator_env =
  lock_acquire_blocking :: "rat \<Rightarrow> exn + bool"
  generator_task_key :: string
  uuid4 :: string
  make_short_id :: string
  creator_now :: timestamp
  send_task :: "string \<Rightarrow> exn + string"
  function_lock_owned :: "exn + bool"
  function_lock_release :: "exn option"

definition LOCK_TIMEOUT :: rat where
  "LOCK_TIMEOUT = 30"

text \<open>
  The body of the \<^verbatim>\<open>try\<close> statement: \<open>Inr v\<close> when it returns \<open>v\<close> or reaches
  its end with \<^verbatim>\<open>payload_id = v\<close>, \<open>Inl e\<close> when it raises.
\<close>

definition creation_body :: "creator_env \<Rightarrow> int \<Rightarrow> world \<Rightarrow> (exn + string option) \<times> world" where
  "creation_body env cc_pair_id w =
     (if fenced cc_pair_id w then (Inr None, w)
      else if delete_fenced w cc_pair_id then (Inr None, w)
      else if prune_fenced w cc_pair_id then (Inr None, w)
      else
        (let w1 = generator_clear cc_pair_id w;
             w2 = taskset_clear cc_pair_id w1;
             custom_task_id = generator_task_key env @ ''_'' @ uuid4 env;
             w3 = log_call (InsertSyncRecord cc_pair_id) w2;
             w4 = set_active cc_pair_id w3;
             pl = \<lparr> payload_id = make_short_id env, submitted = creator_now env,
                    started = None, celery_task_id = None \<rparr>;
             w5 = set_fence cc_pair_id (Some pl) w4
         in (case send_task env custom_task_id of
               Inl e \<Rightarrow> (Inl e, w5)
             | Inr result_id \<Rightarrow>
                 (let w6 = log_call (SendTask cc_pair_id custom_task_id) w5;
                      w7 = set_fence cc_pair_id (Some (pl\<lparr>celery_task_id := Some result_id\<rparr>)) w6
                  in (Inr (Some (payload_id pl)), w7)))))"

text \<open>
  \<^verbatim>\<open>try_creating_permissions_sync_task(app, cc_pair_id, r, tenant_id)\<close>:
  \<^verbatim>\<open>lock.acquire\<close> ahead of the \<^verbatim>\<open>try\<close> statement, the body, the handler
  \<^verbatim>\<open>except Exception: ... return None\<close> and the \<^verbatim>\<open>finally\<close> clause, whose
  \<^verbatim>\<open>lock.owned()\<close> and \<^verbatim>\<open>lock.release()\<close> replace the pending return by
  their exception when they raise.
\<close>

definition try_creating_permissions_sync_task ::
  "creator_env \<Rightarrow> int \<Rightarrow> world \<Rightarrow> (exn + string option) \<times> world" where
  "try_creating_permissions_sync_task env cc_pair_id w =
     (case lock_acquire_blocking env (LOCK_TIMEOUT / 2) of
        Inl e \<Rightarrow> (Inl e, w)
      | Inr acquired \<Rightarrow>
         if \<not> acquired then (Inr None, w)
         else
           (case creation_body env cc_pair_id w of
              (r, w1) \<Rightarrow>
                (let returned = (case r of Inl e \<Rightarrow> Inr None | Inr v \<Rightarrow> Inr v)
                 in (case function_lock_owned env of
                       Inl e \<Rightarrow> (Inl e, w1)
                     | Inr owned \<Rightarrow>
                         if \<not> owned then (returned, w1)
                         else
                           (let w2 = log_call (LockRelease
                                  (FunctionLock ''try_generate_permissions_sync_tasks'')) w1
                            in (case function_lock_release env of
                                  Some e \<Rightarrow> (Inl e, w2)
                                | None \<Rightarrow> (returned, w2)))))))"

section \<open>ACL upserter\<close>

text \<open>
  What one attempt of \<^verbatim>\<open>document_update_permissions\<close> meets: whether a string
  is the value of a member of the enum \<^verbatim>\<open>DocumentSource\<close> (declared in
  \<^verbatim>\<open>onyx.configs.constants\<close>), and the database functions as the database
  answers them: the exception raised, if any, and for
  \<^verbatim>\<open>upsert_document_external_perms\<close> otherwise whether a new document was created.
\<close>

record upsert_db =
  is_document_source :: "string \<Rightarrow> bool"
  batch_add_ext_perm_user_if_not_exists :: "string list \<Rightarrow> exn option"
  upsert_document_external_perms :: "string \<Rightarrow> ExternalAccess \<Rightarrow> DocumentSource \<Rightarrow> exn + bool"
  upsert_document_by_connector_credential_pair :: "int \<Rightarrow> int \<Rightarrow> string list \<Rightarrow> exn option"

text \<open>
  The undecorated function: every exception is logged and raised again; otherwise the
  result is \<^verbatim>\<open>True\<close>. The argument \<^verbatim>\<open>DocumentSource(source_type_str)\<close>
  is evaluated after the users are added and raises \<^verbatim>\<open>ValueError\<close> for a string
  outside the enum.
\<close>

definition document_update_permissions_attempt ::
  "upsert_db \<Rightarrow> DocExternalAccess \<Rightarrow> DocumentSource \<Rightarrow> int \<Rightarrow> int \<Rightarrow> exn + bool" where
  "document_update_permissions_attempt db permissions source_type_str conn_id cred_id =
     (case batch_add_ext_perm_user_if_not_exists db
             (external_user_emails (external_access permissions)) of
        Some e \<Rightarrow> Inl e
      | None \<Rightarrow>
         if \<not> is_document_source db source_type_str
         then Inl (ValueError ''not a valid DocumentSource'')
         else
         (case upsert_document_external_perms db (doc_id permissions)
                 (external_access permissions) source_type_str of
            Inl e \<Rightarrow> Inl e
          | Inr created_new_doc \<Rightarrow>
              if created_new_doc
              then (case upsert_document_by_connector_credential_pair db conn_id cred_id
                           [doc_id permissions] of
                      Some e \<Rightarrow> Inl e
                    | None \<Rightarrow> Inr True)
              else Inr True))"

definition DOCUMENT_PERMISSIONS_UPDATE_STOP_AFTER :: rat where
  "DOCUMENT_PERMISSIONS_UPDATE_STOP_AFTER = 10 * 60"

definition DOCUMENT_PERMISSIONS_UPDATE_MAX_WAIT :: rat where
  "DOCUMENT_PERMISSIONS_UPDATE_MAX_WAIT = 60"

text \<open>
  The decorator of \<^verbatim>\<open>document_update_permissions\<close> is built from the tenacity
  library, which is not part of the repository; its combinators are taken with their
  documented meaning. \<^verbatim>\<open>wait_exponential(multiplier, max)\<close> before attempt
  \<open>n + 1\<close> is \<open>multiplier * 2 ^ (n - 1)\<close> clipped to \<open>[0, max]\<close>, and
  \<^verbatim>\<open>wait_random_exponential\<close> draws uniformly between 0 and that bound: \<open>u\<close> is
  the draw as a fraction, clipped to \<open>[0, 1]\<close>.
\<close>

definition wait_exponential :: "rat \<Rightarrow> rat \<Rightarrow> nat \<Rightarrow> rat" where
  "wait_exponential multiplier max_wait attempt_number =
     max 0 (min (multiplier * 2 ^ (attempt_number - 1)) max_wait)"

definition wait_random_exponential :: "rat \<Rightarrow> rat \<Rightarrow> nat \<Rightarrow> rat \<Rightarrow> rat" where
  "wait_random_exponential multiplier max_wait attempt_number u =
     max 0 (min 1 u) * wait_exponential multiplier max_wait attempt_number"

text \<open>
  \<^verbatim>\<open>stop_after_delay(d)\<close> stops once the time since the first attempt began has
  reached \<open>d\<close> seconds.
\<close>

definition stop_after_delay :: "rat \<Rightarrow> rat \<Rightarrow> bool" where
  "stop_after_delay max_delay seconds_since_start = (max_delay \<le> seconds_since_start)"

text \<open>
  One attempt as the environment determines it: the answers of the database, the
  time since the start of the call at which the attempt ends, and the random draw for
  the wait that may follow.
\<close>

record attempt =
  attempt_db :: upsert_db
  seconds_since_start :: rat
  random_draw :: rat

text \<open>
  Tenacity's loop over the attempts of the decorated function, from attempt number
  \<open>attempt_number\<close> on. After a failed attempt the exception is raised as it is when
  \<^verbatim>\<open>retry_if_exception(is_retryable_sqlalchemy_error)\<close> rejects it; otherwise
  the stop condition is tested, and a \<^verbatim>\<open>RetryError\<close> carrying the last exception
  is raised when it holds; otherwise the call sleeps and tries again. The result holds
  the sleeps made, in order; it is \<open>None\<close> when the list of attempts runs out before
  the call ends. The predicate \<^verbatim>\<open>is_retryable_sqlalchemy_error\<close> is a parameter.
\<close>

fun retrying ::
  "(exn \<Rightarrow> bool) \<Rightarrow> attempt list \<Rightarrow> nat \<Rightarrow> DocExternalAccess \<Rightarrow> DocumentSource \<Rightarrow> int \<Rightarrow> int
     \<Rightarrow> ((exn + bool) \<times> rat list) option" where
  "retrying is_retryable_sqlalchemy_error [] attempt_number
     permissions source_type_str conn_id cred_id = None"
| "retrying is_retryable_sqlalchemy_error (a # rest) attempt_number
     permissions source_type_str conn_id cred_id =
     (case document_update_permissions_attempt (attempt_db a) permissions source_type_str
             conn_id cred_id of
        Inr v \<Rightarrow> Some (Inr v, [])
      | Inl e \<Rightarrow>
          if \<not> is_retryable_sqlalchemy_error e then Some (Inl e, [])
          else if stop_after_delay DOCUMENT_PERMISSIONS_UPDATE_STOP_AFTER (seconds_since_start a)
          then Some (Inl (RetryError e), [])
          else
            (case retrying is_retryable_sqlalchemy_error rest
                    (attempt_number + 1) permissions source_type_str conn_id cred_id of
               None \<Rightarrow> None
             | Some (r, sleeps) \<Rightarrow>
                 Some (r, wait_random_exponential 1 DOCUMENT_PERMISSIONS_UPDATE_MAX_WAIT
                            attempt_number (random_draw a) # sleeps)))"

text \<open>
  The decorated \<^verbatim>\<open>document_update_permissions\<close>: the loop from attempt 1.
\<close>

definition document_update_permissions ::
  "(exn \<Rightarrow> bool) \<Rightarrow> attempt list \<Rightarrow> DocExternalAccess \<Rightarrow> DocumentSource \<Rightarrow> int \<Rightarrow> int
     \<Rightarrow> ((exn + bool) \<times> rat list) option" where
  "document_update_permissions is_retryable_sqlalchemy_error attempts
     permissions source_type_str conn_id cred_id =
     retrying is_retryable_sqlalchemy_error attempts 1 permissions source_type_str conn_id cred_id"

definition doc_a :: DocExternalAccess where
  "doc_a = \<lparr> doc_id = ''doc-a'', external_access =
     \<lparr> external_user_emails = [''ann@example.com''], external_user_group_ids = [],
       is_public = False \<rparr> \<rparr>"

definition doc_b :: DocExternalAccess where
  "doc_b = \<lparr> doc_id = ''doc-b'', external_access =
     \<lparr> external_user_emails = [], external_user_group_ids = [''eng''],
       is_public = True \<rparr> \<rparr>"

definition example_dsc :: DocSyncConfig where
  "example_dsc = \<lparr> doc_sync_frequency = 60, initial_index_should_sync = True,
     doc_sync_func = (\<lambda>_. [Yield doc_a, Yield doc_b]) \<rparr>"

definition example_registry :: registry where
  "example_registry src =
     (if src = ''confluence''
      then Some \<lparr> doc_sync_config = Some example_dsc, censoring_config = None \<rparr>
      else if src = ''salesforce''
      then Some \<lparr> doc_sync_config = None, censoring_config = Some () \<rparr>
      else if src = ''web''
      then Some \<lparr> doc_sync_config = None, censoring_config = None \<rparr>
      else None)"

definition example_cc_pair :: ConnectorCredentialPair where
  "example_cc_pair = \<lparr> cc_id = 7, connector_id = 70, credential_id = 700,
     connector_source = ''confluence'', access_type = SYNC, status = ACTIVE,
     last_successful_index_time = Some 5, last_time_perm_sync = Some 0 \<rparr>"

definition example_keys :: key_parser where
  "example_keys = \<lparr> get_id_from_fence_key =
       (\<lambda>k. if k = ''connectordocpermissionsync_fence_7'' then Some ''7'' else None),
     int_of_str = (\<lambda>s. if s = ''7'' then Some 7 else None) \<rparr>"

definition example_payload :: RedisConnectorPermissionSyncPayload where
  "example_payload = \<lparr> payload_id = ''abc123'', submitted = 10, started = Some 20,
     celery_task_id = Some ''task_1'' \<rparr>"

definition example_world :: world where
  "example_world = \<lparr> fence = (\<lambda>c. if c = 7 then Some (WellFormed example_payload) else None),
     active_signal = (\<lambda>_. False),
     taskset = (\<lambda>_. []),
     generator_complete = (\<lambda>c. if c = 7 then Some 3 else None),
     active_fences = {7},
     delete_fenced = (\<lambda>_. False),
     prune_fenced = (\<lambda>_. False),
     calls = [] \<rparr>"

definition pending_payload :: RedisConnectorPermissionSyncPayload where
  "pending_payload = \<lparr> payload_id = ''abc123'', submitted = 10, started = None,
     celery_task_id = None \<rparr>"

definition queued_payload :: RedisConnectorPermissionSyncPayload where
  "queued_payload = \<lparr> payload_id = ''abc123'', submitted = 10, started = None,
     celery_task_id = Some ''task_1'' \<rparr>"

definition fenced_world :: world where
  "fenced_world = \<lparr> fence = (\<lambda>c. if c = 7 then Some (WellFormed queued_payload) else None),
     active_signal = (\<lambda>c. c = 7),
     taskset = (\<lambda>_. []),
     generator_complete = (\<lambda>_. None),
     active_fences = {7},
     delete_fenced = (\<lambda>_. False),
     prune_fenced = (\<lambda>_. False),
     calls = [] \<rparr>"

definition example_env :: generator_env where
  "example_env = \<lparr> wait_timeout = 60,
     polls = (\<lambda>i. if i = 0 then (Some (WellFormed pending_payload), Some (WellFormed pending_payload))
                  else (Some (WellFormed queued_payload), Some (WellFormed queued_payload))),
     latency = (\<lambda>_. 250),
     first_elapsed = 3,
     lock_acquire = True,
     get_connector_credential_pair_from_id = (\<lambda>c. if c = 7 then Some example_cc_pair else None),
     validate_ccpair_for_user = (\<lambda>_. Inr True),
     get_source_perm_sync_config = example_registry,
     now_utc = 30,
     callback_init = None,
     upserter_error = (\<lambda>_. None),
     lock_owned = True \<rparr>"

definition env_for_source :: "DocumentSource \<Rightarrow> generator_env" where
  "env_for_source src = example_env\<lparr>get_connector_credential_pair_from_id :=
     (\<lambda>c. if c = 7 then Some (example_cc_pair\<lparr>connector_source := src\<rparr>) else None)\<rparr>"

definition failing_upsert_env :: generator_env where
  "failing_upsert_env = example_env\<lparr>upserter_error :=
     (\<lambda>d. if doc_id d = ''doc-b'' then Some (OtherError ''database is down'') else None)\<rparr>"

definition started_payload :: RedisConnectorPermissionSyncPayload where
  "started_payload = \<lparr> payload_id = ''abc123'', submitted = 10, started = Some 30,
     celery_task_id = Some ''task_1'' \<rparr>"

definition example_creator_env :: creator_env where
  "example_creator_env = \<lparr> lock_acquire_blocking = (\<lambda>t. Inr (2 \<le> t)),
     generator_task_key = ''connectordocpermissionsync+generator_7'',
     uuid4 = ''1b4e28ba'',
     make_short_id = ''abc123'',
     creator_now = 10,
     send_task = (\<lambda>task_id. Inr task_id),
     function_lock_owned = Inr True,
     function_lock_release = None \<rparr>"

definition unfenced_world :: world where
  "unfenced_world = \<lparr> fence = (\<lambda>_. None),
     active_signal = (\<lambda>_. False),
     taskset = (\<lambda>_. []),
     generator_complete = (\<lambda>_. None),
     active_fences = {},
     delete_fenced = (\<lambda>_. False),
     prune_fenced = (\<lambda>_. False),
     calls = [] \<rparr>"

definition ok_db :: upsert_db where
  "ok_db = \<lparr> is_document_source = (\<lambda>s. s = ''confluence'' \<or> s = ''salesforce'' \<or> s = ''web''),
     batch_add_ext_perm_user_if_not_exists = (\<lambda>_. None),
     upsert_document_external_perms = (\<lambda>_ _ _. Inr True),
     upsert_document_by_connector_credential_pair = (\<lambda>_ _ _. None) \<rparr>"

definition deadlocked_db :: upsert_db where
  "deadlocked_db = ok_db\<lparr>upsert_document_external_perms :=
     (\<lambda>_ _ _. Inl (OtherError ''deadlock detected''))\<rparr>"

definition constraint_db :: upsert_db where
  "constraint_db = ok_db\<lparr>upsert_document_external_perms :=
     (\<lambda>_ _ _. Inl (OtherError ''constraint violated''))\<rparr>"

definition example_retryable :: "exn \<Rightarrow> bool" where
  "example_retryable e = (e = OtherError ''deadlock detected'')"

definition example_attempts :: "attempt list" where
  "example_attempts =
     [\<lparr> attempt_db = deadlocked_db, seconds_since_start = 1, random_draw = 1 / 2 \<rparr>,
      \<lparr> attempt_db = deadlocked_db, seconds_since_start = 3, random_draw = 1 \<rparr>,
      \<lparr> attempt_db = ok_db, seconds_since_start = 6, random_draw = 0 \<rparr>]"

section \<open>Theorems\<close>

declare wait_for_fence.simps [simp del]

lemma example_source_config:
  "example_registry (connector_source example_cc_pair) =
     Some \<lparr> doc_sync_config = Some example_dsc, censoring_config = None \<rparr>"
  by (simp add: example_registry_def example_cc_pair_def)

lemma py_int_three_halves: "py_int (3 / 2) = 1"
proof -
  have "\<lfloor>(3::rat) / 2\<rfloor> = 1" by (simp add: floor_eq_iff)
  then show ?thesis by (simp add: py_int_def)
qed

text \<open>
  C1 (as stated, refuted). With a multiplier of 1.5, a frequency of 60 seconds and a last
  permission sync at time 0, the code computes a period of \<open>60 * int(1.5) = 60\<close> seconds
  and reports the pair due at time 70; the stated policy multiplies by the multiplier
  itself, gets 90 seconds, and reports it not due.
\<close>

theorem due_policy_multiplier_counterexample:
  "is_external_doc_permissions_sync_due example_registry (3 / 2) 70 example_cc_pair \<and>
   \<not> due_policy_spec example_registry (3 / 2) 70 example_cc_pair"
proof -
  have a: "is_external_doc_permissions_sync_due example_registry (3 / 2) 70 example_cc_pair"
    unfolding is_external_doc_permissions_sync_due_def example_source_config
    by (simp add: example_cc_pair_def example_dsc_def py_int_three_halves)
  have b: "\<not> due_policy_spec example_registry (3 / 2) 70 example_cc_pair"
    unfolding due_policy_spec_def example_source_config
    by (simp add: example_cc_pair_def example_dsc_def)
  from a b show ?thesis by simp
qed

text \<open>
  C1 (amended). A connector-credential pair is due exactly when its access type is SYNC,
  its status is ACTIVE, a sync config with a doc sync config is registered for its source,
  an initial-index-first source has a successful indexing time, and the pair was never
  permission-synced or the current time has reached the last sync plus the frequency
  times the integer part of the runtime multiplier. Hence a pair meeting the other
  conditions with no last sync is due, and an initial-index-first pair that was never
  indexed is not.
\<close>

theorem due_policy_iff:
  "(is_external_doc_permissions_sync_due reg multiplier now cc \<longleftrightarrow>
      access_type cc = SYNC \<and> status cc = ACTIVE \<and>
      (\<exists>cfg dsc. reg (connector_source cc) = Some cfg \<and> doc_sync_config cfg = Some dsc \<and>
         (initial_index_should_sync dsc \<longrightarrow> last_successful_index_time cc \<noteq> None) \<and>
         (last_time_perm_sync cc = None \<or>
          (\<exists>t. last_time_perm_sync cc = Some t \<and>
               t + of_int (doc_sync_frequency dsc * py_int multiplier) \<le> now))))
   \<and> (access_type cc = SYNC \<and> status cc = ACTIVE \<and>
        reg (connector_source cc) = Some cfg \<and> doc_sync_config cfg = Some dsc \<and>
        (initial_index_should_sync dsc \<longrightarrow> last_successful_index_time cc \<noteq> None) \<and>
        last_time_perm_sync cc = None
        \<longrightarrow> is_external_doc_permissions_sync_due reg multiplier now cc)
   \<and> (reg (connector_source cc) = Some cfg \<and> doc_sync_config cfg = Some dsc \<and>
        initial_index_should_sync dsc \<and> last_successful_index_time cc = None
        \<longrightarrow> \<not> is_external_doc_permissions_sync_due reg multiplier now cc)"
  unfolding is_external_doc_permissions_sync_due_def
  by (auto simp: Let_def split: option.splits)

theorem due_policy_iff_witness:
  "is_external_doc_permissions_sync_due example_registry (3 / 2) 70 example_cc_pair \<and>
   is_external_doc_permissions_sync_due example_registry 1 0
     (example_cc_pair\<lparr>last_time_perm_sync := None\<rparr>) \<and>
   \<not> is_external_doc_permissions_sync_due example_registry 1 100
     (example_cc_pair\<lparr>last_successful_index_time := None\<rparr>)"
proof -
  let ?cfg = "\<lparr> doc_sync_config = Some example_dsc, censoring_config = None \<rparr>"
  have r: "example_registry ''confluence'' = Some ?cfg"
    by (simp add: example_registry_def)
  have a: "is_external_doc_permissions_sync_due example_registry (3 / 2) 70 example_cc_pair"
    using due_policy_iff [of example_registry "3 / 2" 70 example_cc_pair ?cfg example_dsc] r
    by (simp add: example_cc_pair_def example_dsc_def py_int_three_halves)
  have b: "is_external_doc_permissions_sync_due example_registry 1 0
     (example_cc_pair\<lparr>last_time_perm_sync := None\<rparr>)"
    using due_policy_iff [of example_registry 1 0
        "example_cc_pair\<lparr>last_time_perm_sync := None\<rparr>" ?cfg example_dsc] r
    by (simp add: example_cc_pair_def example_dsc_def)
  have c: "\<not> is_external_doc_permissions_sync_due example_registry 1 100
     (example_cc_pair\<lparr>last_successful_index_time := None\<rparr>)"
    using due_policy_iff [of example_registry 1 100
        "example_cc_pair\<lparr>last_successful_index_time := None\<rparr>" ?cfg example_dsc] r
    by (simp add: example_cc_pair_def example_dsc_def)
  from a b c show ?thesis by simp
qed

lemma example_keys_parse:
  "get_id_from_fence_key example_keys ''connectordocpermissionsync_fence_7'' = Some ''7''"
  "int_of_str example_keys ''7'' = Some 7"
  by (simp_all add: example_keys_def)

lemma example_world_simps:
  "fence example_world 7 = Some (WellFormed example_payload)"
  "generator_complete example_world 7 = Some 3"
  "taskset example_world 7 = []"
  "active_signal example_world 7 = False"
  "calls example_world = []"
  by (simp_all add: example_world_def)

lemma example_payload_simps:
  "started example_payload = Some 20"
  "celery_task_id example_payload = Some ''task_1''"
  by (simp_all add: example_payload_def)

lemma scan_taskset_counts:
  "scan_taskset q r xs (a, b) =
     (a + length xs, b + length (filter (\<lambda>m. m \<notin> q \<and> m \<notin> r) xs))"
  by (induction xs arbitrary: a b) auto

lemma scan_taskset_all_present:
  "(case scan_taskset q r xs (0, 0) of (sc, nic) \<Rightarrow> 0 < sc \<and> nic = 0)
     \<longleftrightarrow> xs \<noteq> [] \<and> set xs \<subseteq> q \<union> r"
  by (auto simp: scan_taskset_counts filter_empty_conv)

text \<open>
  C2. For a fence key that resolves to the pair \<open>c\<close>, the progress monitor returns with
  the world unchanged (no database call, no fence mutation) when the fence is absent,
  when \<^verbatim>\<open>generator_complete\<close> is null, or when the payload does not parse; when
  tasks remain it only adds the progress telemetry record; and when none remain it
  records the progress telemetry, marks the pair as permissions-synced at
  \<^verbatim>\<open>payload.started\<close>, emits the completion telemetry, updates the sync record to
  SUCCESS with \<^verbatim>\<open>num_docs_synced = generator_complete\<close>, and resets the fence.
\<close>

theorem monitor_finalization:
  assumes "get_id_from_fence_key kp fence_key = Some s" and "int_of_str kp s = Some c"
  shows
  "(fence w c = None \<or> generator_complete w c = None \<or> fence w c = Some Malformed
      \<longrightarrow> monitor_ccpair_permissions_taskset kp fence_key w = (Inr (), w))
   \<and> (fence w c = Some (WellFormed p) \<and> generator_complete w c = Some n \<and>
        0 < get_remaining c w
      \<longrightarrow> monitor_ccpair_permissions_taskset kp fence_key w =
            (Inr (), w\<lparr>calls := calls w @
               [OptionalTelemetry PERMISSION_SYNC_PROGRESS
                  [(''cc_pair_id'', c), (''total_docs_synced'', n),
                   (''remaining_docs_to_sync'', get_remaining c w)]]\<rparr>))
   \<and> (fence w c = Some (WellFormed p) \<and> generator_complete w c = Some n \<and>
        get_remaining c w = 0
      \<longrightarrow> monitor_ccpair_permissions_taskset kp fence_key w =
            (Inr (), reset c (w\<lparr>calls := calls w @
               [OptionalTelemetry PERMISSION_SYNC_PROGRESS
                  [(''cc_pair_id'', c), (''total_docs_synced'', n),
                   (''remaining_docs_to_sync'', 0)],
                MarkCcPairAsPermissionsSynced c (started p),
                OptionalTelemetry PERMISSION_SYNC_COMPLETE [(''cc_pair_id'', c)],
                UpdateSyncRecordStatus c SUCCESS n]\<rparr>)))"
  using assms
  unfolding monitor_ccpair_permissions_taskset_def
  by (auto simp: fenced_def payload_def log_call_def Let_def split: option.splits)

theorem monitor_finalization_witness:
  "monitor_ccpair_permissions_taskset example_keys ''connectordocpermissionsync_fence_7''
       (example_world\<lparr>generator_complete := (\<lambda>_. None)\<rparr>)
     = (Inr (), example_world\<lparr>generator_complete := (\<lambda>_. None)\<rparr>)
   \<and> monitor_ccpair_permissions_taskset example_keys ''connectordocpermissionsync_fence_7''
       (example_world\<lparr>taskset := (\<lambda>_. [''subtask_1''])\<rparr>)
     = (Inr (), example_world\<lparr>taskset := (\<lambda>_. [''subtask_1'']), calls :=
          [OptionalTelemetry PERMISSION_SYNC_PROGRESS
             [(''cc_pair_id'', 7), (''total_docs_synced'', 3),
              (''remaining_docs_to_sync'', 1)]]\<rparr>)
   \<and> monitor_ccpair_permissions_taskset example_keys ''connectordocpermissionsync_fence_7''
       example_world
     = (Inr (), reset 7 (example_world\<lparr>calls :=
          [OptionalTelemetry PERMISSION_SYNC_PROGRESS
             [(''cc_pair_id'', 7), (''total_docs_synced'', 3),
              (''remaining_docs_to_sync'', 0)],
           MarkCcPairAsPermissionsSynced 7 (Some 20),
           OptionalTelemetry PERMISSION_SYNC_COMPLETE [(''cc_pair_id'', 7)],
           UpdateSyncRecordStatus 7 SUCCESS 3]\<rparr>))"
proof -
  note inst = monitor_finalization [OF example_keys_parse]
  have a: "monitor_ccpair_permissions_taskset example_keys ''connectordocpermissionsync_fence_7''
       (example_world\<lparr>generator_complete := (\<lambda>_. None)\<rparr>)
     = (Inr (), example_world\<lparr>generator_complete := (\<lambda>_. None)\<rparr>)"
    using inst [where w = "example_world\<lparr>generator_complete := (\<lambda>_. None)\<rparr>"]
    by simp
  have b: "monitor_ccpair_permissions_taskset example_keys ''connectordocpermissionsync_fence_7''
       (example_world\<lparr>taskset := (\<lambda>_. [''subtask_1''])\<rparr>)
     = (Inr (), example_world\<lparr>taskset := (\<lambda>_. [''subtask_1'']), calls :=
          [OptionalTelemetry PERMISSION_SYNC_PROGRESS
             [(''cc_pair_id'', 7), (''total_docs_synced'', 3),
              (''remaining_docs_to_sync'', 1)]]\<rparr>)"
    using inst [where w = "example_world\<lparr>taskset := (\<lambda>_. [''subtask_1''])\<rparr>" and p = example_payload and n = 3]
    by (simp add: example_world_simps get_remaining_def)
  have c: "monitor_ccpair_permissions_taskset example_keys ''connectordocpermissionsync_fence_7''
       example_world
     = (Inr (), reset 7 (example_world\<lparr>calls :=
          [OptionalTelemetry PERMISSION_SYNC_PROGRESS
             [(''cc_pair_id'', 7), (''total_docs_synced'', 3),
              (''remaining_docs_to_sync'', 0)],
           MarkCcPairAsPermissionsSynced 7 (Some 20),
           OptionalTelemetry PERMISSION_SYNC_COMPLETE [(''cc_pair_id'', 7)],
           UpdateSyncRecordStatus 7 SUCCESS 3]\<rparr>))"
    using inst [where w = example_world and p = example_payload and n = 3]
    by (simp add: example_world_simps example_payload_simps get_remaining_def)
  from a b c show ?thesis by simp
qed

text \<open>
  C7 (as stated, refuted). A fence whose payload does not parse is reset although its
  active signal is live, whatever the queue and the reserved set hold; and a payload
  whose \<^verbatim>\<open>celery_task_id\<close> is the empty string is skipped like a null one, with no
  renewal of the active signal, although that id is in the reserved set.
\<close>

theorem validator_decision_counterexample:
  "active 7 (example_world\<lparr>fence := (\<lambda>_. Some Malformed), active_signal := (\<lambda>_. True)\<rparr>)
   \<and> validate_permission_sync_fence example_keys (\<lambda>_. True)
       ''connectordocpermissionsync_fence_7'' {} {''task_1''}
       (example_world\<lparr>fence := (\<lambda>_. Some Malformed), active_signal := (\<lambda>_. True)\<rparr>)
     = (Inr (), reset 7
          (example_world\<lparr>fence := (\<lambda>_. Some Malformed), active_signal := (\<lambda>_. True)\<rparr>))
   \<and> fence (reset 7
          (example_world\<lparr>fence := (\<lambda>_. Some Malformed), active_signal := (\<lambda>_. True)\<rparr>)) 7
     = None
   \<and> validate_permission_sync_fence example_keys (\<lambda>_. True)
       ''connectordocpermissionsync_fence_7'' {} {[]}
       (example_world\<lparr>fence :=
          (\<lambda>_. Some (WellFormed (example_payload\<lparr>celery_task_id := Some []\<rparr>)))\<rparr>)
     = (Inr (), example_world\<lparr>fence :=
          (\<lambda>_. Some (WellFormed (example_payload\<lparr>celery_task_id := Some []\<rparr>)))\<rparr>)"
  by (simp add: validate_permission_sync_fence_def example_keys_def fenced_def payload_def
        active_def reset_def log_call_def example_world_def)

text \<open>
  C7 (amended). For a fence key that resolves to the pair \<open>c\<close> whose fence exists, the
  validator resets the fence when the payload does not parse, whether or not the active
  signal is live; does nothing when \<^verbatim>\<open>celery_task_id\<close> is null or empty; for a
  non-empty task id it renews the active signal when the id is in the queue or in the
  reserved set, or when the taskset is non-empty and all its members are queued or
  reserved; otherwise does nothing when the active signal is live, and resets the fence
  when it is not. So the fence is gone afterwards only if the payload did not parse or
  none of the keeping conditions held, and a fence whose payload parses is never reset
  while its active signal is live or its generator task is in the queue or the reserved
  set.
\<close>

theorem validator_decision:
  assumes "get_id_from_fence_key kp fence_key = Some s" and "int_of_str kp s = Some c"
    and "fence w c = Some v"
  shows
  "(v = Malformed
      \<longrightarrow> validate_permission_sync_fence kp celery_find_task fence_key queued reserved w
            = (Inr (), reset c w))
   \<and> (v = WellFormed p \<and> (celery_task_id p = None \<or> celery_task_id p = Some [])
      \<longrightarrow> validate_permission_sync_fence kp celery_find_task fence_key queued reserved w = (Inr (), w))
   \<and> (v = WellFormed p \<and> celery_task_id p = Some t \<and> t \<noteq> [] \<and>
        (celery_find_task t \<or> t \<in> reserved \<or>
         (taskset w c \<noteq> [] \<and> set (taskset w c) \<subseteq> queued \<union> reserved))
      \<longrightarrow> validate_permission_sync_fence kp celery_find_task fence_key queued reserved w
            = (Inr (), set_active c w))
   \<and> (v = WellFormed p \<and> celery_task_id p = Some t \<and> t \<noteq> [] \<and>
        \<not> celery_find_task t \<and> t \<notin> reserved \<and>
        \<not> (taskset w c \<noteq> [] \<and> set (taskset w c) \<subseteq> queued \<union> reserved) \<and>
        active c w
      \<longrightarrow> validate_permission_sync_fence kp celery_find_task fence_key queued reserved w = (Inr (), w))
   \<and> (v = WellFormed p \<and> celery_task_id p = Some t \<and> t \<noteq> [] \<and>
        \<not> celery_find_task t \<and> t \<notin> reserved \<and>
        \<not> (taskset w c \<noteq> [] \<and> set (taskset w c) \<subseteq> queued \<union> reserved) \<and>
        \<not> active c w
      \<longrightarrow> validate_permission_sync_fence kp celery_find_task fence_key queued reserved w
            = (Inr (), reset c w))
   \<and> (fence (snd (validate_permission_sync_fence kp celery_find_task fence_key queued reserved w)) c = None
      \<longrightarrow> v = Malformed \<or>
          (\<exists>q u. v = WellFormed q \<and> celery_task_id q = Some u \<and> u \<noteq> [] \<and>
             \<not> celery_find_task u \<and> u \<notin> reserved \<and>
             \<not> (taskset w c \<noteq> [] \<and> set (taskset w c) \<subseteq> queued \<union> reserved) \<and>
             \<not> active c w))
   \<and> (v = WellFormed p \<and> active c w
      \<longrightarrow> fence (snd (validate_permission_sync_fence kp celery_find_task fence_key queued
                        reserved w)) c \<noteq> None)
   \<and> (v = WellFormed p \<and> celery_task_id p = Some t \<and> (celery_find_task t \<or> t \<in> reserved)
      \<longrightarrow> fence (snd (validate_permission_sync_fence kp celery_find_task fence_key queued
                        reserved w)) c \<noteq> None)"
proof -
  let ?all = "taskset w c \<noteq> [] \<and> set (taskset w c) \<subseteq> queued \<union> reserved"
  have scan: "filter (\<lambda>m. m \<notin> queued \<and> m \<notin> reserved) (taskset w c) = []
               \<longleftrightarrow> set (taskset w c) \<subseteq> queued \<union> reserved"
    by (auto simp: filter_empty_conv)
  have unfolded: "validate_permission_sync_fence kp celery_find_task fence_key queued reserved w =
     (case v of
        Malformed \<Rightarrow> (Inr (), reset c w)
      | WellFormed pl \<Rightarrow>
         (case celery_task_id pl of
            None \<Rightarrow> (Inr (), w)
          | Some task_id \<Rightarrow>
             if task_id = [] then (Inr (), w)
             else if celery_find_task task_id \<or> task_id \<in> reserved \<or> ?all
             then (Inr (), set_active c w)
             else if active c w then (Inr (), w)
             else (Inr (), reset c w)))"
    using assms
    unfolding validate_permission_sync_fence_def scan_taskset_counts
    by (simp add: fenced_def payload_def scan split: fence_value.splits option.splits)
  have not_deleted: "fence (set_active c w) c \<noteq> None" "fence w c \<noteq> None"
    using assms by (simp_all add: set_active_def log_call_def)
  show ?thesis
    unfolding unfolded using not_deleted
    by (cases v) (auto split: option.splits)
qed

theorem validator_decision_witness:
  "validate_permission_sync_fence example_keys (\<lambda>_. False)
       ''connectordocpermissionsync_fence_7'' {} {}
       (example_world\<lparr>fence := (\<lambda>_. Some Malformed)\<rparr>)
     = (Inr (), reset 7 (example_world\<lparr>fence := (\<lambda>_. Some Malformed)\<rparr>))
   \<and> validate_permission_sync_fence example_keys (\<lambda>_. False)
       ''connectordocpermissionsync_fence_7'' {} {''task_1''} example_world
     = (Inr (), set_active 7 example_world)
   \<and> validate_permission_sync_fence example_keys (\<lambda>_. False)
       ''connectordocpermissionsync_fence_7'' {''subtask_1''} {}
       (example_world\<lparr>taskset := (\<lambda>_. [''subtask_1''])\<rparr>)
     = (Inr (), set_active 7 (example_world\<lparr>taskset := (\<lambda>_. [''subtask_1''])\<rparr>))
   \<and> validate_permission_sync_fence example_keys (\<lambda>_. False)
       ''connectordocpermissionsync_fence_7'' {} {}
       (example_world\<lparr>active_signal := (\<lambda>_. True)\<rparr>)
     = (Inr (), example_world\<lparr>active_signal := (\<lambda>_. True)\<rparr>)
   \<and> validate_permission_sync_fence example_keys (\<lambda>_. False)
       ''connectordocpermissionsync_fence_7'' {} {} example_world
     = (Inr (), reset 7 example_world)"
proof -
  note inst = validator_decision [OF example_keys_parse]
  have a: "validate_permission_sync_fence example_keys (\<lambda>_. False)
       ''connectordocpermissionsync_fence_7'' {} {}
       (example_world\<lparr>fence := (\<lambda>_. Some Malformed)\<rparr>)
     = (Inr (), reset 7 (example_world\<lparr>fence := (\<lambda>_. Some Malformed)\<rparr>))"
    using inst [where w = "example_world\<lparr>fence := (\<lambda>_. Some Malformed)\<rparr>" and v = Malformed
        and celery_find_task = "\<lambda>_. False" and queued = "{}" and reserved = "{}"]
    by simp
  have b: "validate_permission_sync_fence example_keys (\<lambda>_. False)
       ''connectordocpermissionsync_fence_7'' {} {''task_1''} example_world
     = (Inr (), set_active 7 example_world)"
    using inst [where w = "example_world" and v = "WellFormed example_payload"
        and p = example_payload and t = "''task_1''"
        and celery_find_task = "\<lambda>_. False" and queued = "{}" and reserved = "{''task_1''}"]
    by (simp add: example_world_simps example_payload_simps)
  have c: "validate_permission_sync_fence example_keys (\<lambda>_. False)
       ''connectordocpermissionsync_fence_7'' {''subtask_1''} {}
       (example_world\<lparr>taskset := (\<lambda>_. [''subtask_1''])\<rparr>)
     = (Inr (), set_active 7 (example_world\<lparr>taskset := (\<lambda>_. [''subtask_1''])\<rparr>))"
    using inst [where w = "example_world\<lparr>taskset := (\<lambda>_. [''subtask_1''])\<rparr>" and v = "WellFormed example_payload"
        and p = example_payload and t = "''task_1''"
        and celery_find_task = "\<lambda>_. False" and queued = "{''subtask_1''}" and reserved = "{}"]
    by (simp add: example_world_simps example_payload_simps)
  have d: "validate_permission_sync_fence example_keys (\<lambda>_. False)
       ''connectordocpermissionsync_fence_7'' {} {}
       (example_world\<lparr>active_signal := (\<lambda>_. True)\<rparr>)
     = (Inr (), example_world\<lparr>active_signal := (\<lambda>_. True)\<rparr>)"
    using inst [where w = "example_world\<lparr>active_signal := (\<lambda>_. True)\<rparr>" and v = "WellFormed example_payload"
        and p = example_payload and t = "''task_1''"
        and celery_find_task = "\<lambda>_. False" and queued = "{}" and reserved = "{}"]
    by (simp add: example_world_simps example_payload_simps active_def)
  have e: "validate_permission_sync_fence example_keys (\<lambda>_. False)
       ''connectordocpermissionsync_fence_7'' {} {} example_world
     = (Inr (), reset 7 example_world)"
    using inst [where w = "example_world" and v = "WellFormed example_payload"
        and p = example_payload and t = "''task_1''"
        and celery_find_task = "\<lambda>_. False" and queued = "{}" and reserved = "{}"]
    by (simp add: example_world_simps example_payload_simps active_def)
  from a b c d e show ?thesis by simp
qed






lemma example_wait:
  "wait_for_fence (wait_timeout example_env) (polls example_env) (latency example_env) 0
     (first_elapsed example_env) = Inr queued_payload"
  by (simp add: example_env_def wait_for_fence.simps pending_payload_def queued_payload_def)


lemma env_for_source_simps:
  "wait_for_fence (wait_timeout (env_for_source src)) (polls (env_for_source src))
     (latency (env_for_source src)) 0 (first_elapsed (env_for_source src)) = Inr queued_payload"
  "lock_acquire (env_for_source src)" "lock_owned (env_for_source src)"
  "get_connector_credential_pair_from_id (env_for_source src) 7
     = Some (example_cc_pair\<lparr>connector_source := src\<rparr>)"
  "validate_ccpair_for_user (env_for_source src) cc = Inr True"
  "get_source_perm_sync_config (env_for_source src) = example_registry"
  using example_wait by (simp_all add: env_for_source_def example_env_def)

lemma failing_upsert_env_simps:
  "wait_for_fence (wait_timeout failing_upsert_env) (polls failing_upsert_env)
     (latency failing_upsert_env) 0 (first_elapsed failing_upsert_env) = Inr queued_payload"
  "lock_acquire failing_upsert_env" "lock_owned failing_upsert_env"
  "get_connector_credential_pair_from_id failing_upsert_env 7 = Some example_cc_pair"
  "validate_ccpair_for_user failing_upsert_env cc = Inr True"
  "get_source_perm_sync_config failing_upsert_env = example_registry"
  "now_utc failing_upsert_env = 30" "callback_init failing_upsert_env = None"
  "upserter_error failing_upsert_env doc_a = None"
  "upserter_error failing_upsert_env doc_b = Some (OtherError ''database is down'')"
  using example_wait
  by (simp_all add: failing_upsert_env_def example_env_def doc_a_def doc_b_def)

lemma fenced_world_simps:
  "fence fenced_world 7 = Some (WellFormed queued_payload)"
  "calls fenced_world = []"
  "generator_complete fenced_world = (\<lambda>_. None)"
  by (simp_all add: fenced_world_def)

lemma example_producer:
  "doc_sync_func example_dsc cc = [Yield doc_a, Yield doc_b]"
  by (simp add: example_dsc_def)


lemma failing_body:
  "sync_body failing_upsert_env 7 fenced_world =
     (Inl (OtherError ''database is down''),
        log_call (UpdateDb 7 doc_b) (log_call (UpdateDb 7 doc_a)
           (set_fence 7 (Some started_payload) fenced_world)))"
  by (simp add: sync_body_def failing_upsert_env_simps example_source_config payload_def
        fenced_world_simps example_producer queued_payload_def started_payload_def Let_def)



text \<open>
  C3. When the task holds the sync lock and its \<^verbatim>\<open>try\<close> body raises \<open>e\<close>, the
  task clears \<^verbatim>\<open>generator_complete\<close>, clears the taskset, deletes the fence with
  \<^verbatim>\<open>set_fence(None)\<close>, raises the same \<open>e\<close>, and releases the lock it still owns,
  in this order.
\<close>

theorem exception_cleanup:
  assumes "wait_for_fence (wait_timeout env) (polls env) (latency env) 0 (first_elapsed env)
             = Inr pl"
    and "lock_acquire env"
    and "sync_body env c w = (Inl e, w1)"
  shows "fst (connector_permission_sync_generator_task env c w) = Inl e \<and>
     generator_complete (snd (connector_permission_sync_generator_task env c w)) c = None \<and>
     taskset (snd (connector_permission_sync_generator_task env c w)) c = [] \<and>
     fence (snd (connector_permission_sync_generator_task env c w)) c = None \<and>
     c \<notin> active_fences (snd (connector_permission_sync_generator_task env c w)) \<and>
     calls (snd (connector_permission_sync_generator_task env c w)) =
       calls w1 @ [GeneratorClear c, TasksetClear c, SetFence c None]
         @ (if lock_owned env then [LockRelease (SyncLock c)] else [])"
proof -
  have run: "connector_permission_sync_generator_task env c w =
     (Inl e, (if lock_owned env then log_call (LockRelease (SyncLock c)) else (\<lambda>x. x))
        (set_fence c None (taskset_clear c (generator_clear c w1))))"
    using assms by (simp add: connector_permission_sync_generator_task_def Let_def)
  show ?thesis
    unfolding run
    by (simp add: set_fence_def taskset_clear_def generator_clear_def log_call_def)
qed

theorem exception_cleanup_witness:
  "fst (connector_permission_sync_generator_task failing_upsert_env 7 fenced_world)
     = Inl (OtherError ''database is down'')
   \<and> generator_complete
       (snd (connector_permission_sync_generator_task failing_upsert_env 7 fenced_world)) 7 = None
   \<and> taskset (snd (connector_permission_sync_generator_task failing_upsert_env 7 fenced_world)) 7
       = []
   \<and> fence (snd (connector_permission_sync_generator_task failing_upsert_env 7 fenced_world)) 7
       = None
   \<and> calls (snd (connector_permission_sync_generator_task failing_upsert_env 7 fenced_world))
       = [SetFence 7 (Some started_payload), UpdateDb 7 doc_a, UpdateDb 7 doc_b,
          GeneratorClear 7, TasksetClear 7, SetFence 7 None, LockRelease (SyncLock 7)]"
  using exception_cleanup [OF failing_upsert_env_simps(1) failing_upsert_env_simps(2) failing_body]
  by (simp add: failing_upsert_env_simps set_fence_def log_call_def fenced_world_simps)




text \<open>
  C9. With the lock held, the pair found and validated, and a sync config without
  \<^verbatim>\<open>doc_sync_config\<close>: if \<^verbatim>\<open>censoring_config\<close> is present the task returns
  normally, its only call is the release of the lock (no upsert, no write of
  \<^verbatim>\<open>generator_complete\<close>) and the fence is as before; if it is absent too the task
  raises \<^verbatim>\<open>ValueError\<close>.
\<close>

theorem sync_config_dispatch:
  assumes "wait_for_fence (wait_timeout env) (polls env) (latency env) 0 (first_elapsed env)
             = Inr pl"
    and "lock_acquire env"
    and "get_connector_credential_pair_from_id env c = Some cc"
    and "validate_ccpair_for_user env cc = Inr created"
    and "get_source_perm_sync_config env (connector_source cc) = Some cfg"
    and "doc_sync_config cfg = None"
  shows "(censoring_config cfg \<noteq> None \<longrightarrow>
            fst (connector_permission_sync_generator_task env c w) = Inr () \<and>
            calls (snd (connector_permission_sync_generator_task env c w)) =
              calls w @ (if lock_owned env then [LockRelease (SyncLock c)] else []) \<and>
            generator_complete (snd (connector_permission_sync_generator_task env c w)) =
              generator_complete w \<and>
            fence (snd (connector_permission_sync_generator_task env c w)) = fence w)
       \<and> (censoring_config cfg = None \<longrightarrow>
            fst (connector_permission_sync_generator_task env c w)
              = Inl (ValueError ''No doc sync func found''))"
proof -
  have body: "sync_body env c w =
     (if censoring_config cfg \<noteq> None then (Inr (), w)
      else (Inl (ValueError ''No doc sync func found''), w))"
    using assms by (simp add: sync_body_def)
  show ?thesis
    using assms(1,2)
    by (simp add: connector_permission_sync_generator_task_def body Let_def log_call_def)
qed

theorem sync_config_dispatch_witness:
  "fst (connector_permission_sync_generator_task (env_for_source ''salesforce'') 7 fenced_world)
     = Inr ()
   \<and> calls (snd (connector_permission_sync_generator_task (env_for_source ''salesforce'') 7
        fenced_world)) = [LockRelease (SyncLock 7)]
   \<and> generator_complete (snd (connector_permission_sync_generator_task
        (env_for_source ''salesforce'') 7 fenced_world)) = (\<lambda>_. None)
   \<and> fst (connector_permission_sync_generator_task (env_for_source ''web'') 7 fenced_world)
     = Inl (ValueError ''No doc sync func found'')"
proof -
  have a: "fst (connector_permission_sync_generator_task (env_for_source ''salesforce'') 7
             fenced_world) = Inr ()
     \<and> calls (snd (connector_permission_sync_generator_task (env_for_source ''salesforce'') 7
        fenced_world)) = [LockRelease (SyncLock 7)]
     \<and> generator_complete (snd (connector_permission_sync_generator_task
        (env_for_source ''salesforce'') 7 fenced_world)) = (\<lambda>_. None)"
    using sync_config_dispatch [OF env_for_source_simps(1) env_for_source_simps(2)
        env_for_source_simps(4) env_for_source_simps(5),
        where cfg = "\<lparr> doc_sync_config = None, censoring_config = Some () \<rparr>"
          and src1 = "''salesforce''" and w = fenced_world]
    by (simp add: env_for_source_simps example_registry_def fenced_world_simps)
  have b: "fst (connector_permission_sync_generator_task (env_for_source ''web'') 7 fenced_world)
     = Inl (ValueError ''No doc sync func found'')"
    using sync_config_dispatch [OF env_for_source_simps(1) env_for_source_simps(2)
        env_for_source_simps(4) env_for_source_simps(5),
        where cfg = "\<lparr> doc_sync_config = None, censoring_config = None \<rparr>"
          and src1 = "''web''" and w = fenced_world]
    by (simp add: env_for_source_simps example_registry_def)
  from a b show ?thesis by simp
qed

text \<open>
  C10. With the lock held, the pair found and validated, and no sync config registered
  for the source, the task returns normally and the fence payloads, the active signals,
  the tasksets, the \<^verbatim>\<open>generator_complete\<close> keys and the set of active fences are
  unchanged; its only call is the release of the lock.
\<close>

theorem missing_sync_config_frame:
  assumes "wait_for_fence (wait_timeout env) (polls env) (latency env) 0 (first_elapsed env)
             = Inr pl"
    and "lock_acquire env"
    and "get_connector_credential_pair_from_id env c = Some cc"
    and "validate_ccpair_for_user env cc = Inr created"
    and "get_source_perm_sync_config env (connector_source cc) = None"
  shows "fst (connector_permission_sync_generator_task env c w) = Inr () \<and>
     fence (snd (connector_permission_sync_generator_task env c w)) = fence w \<and>
     active_signal (snd (connector_permission_sync_generator_task env c w)) = active_signal w \<and>
     taskset (snd (connector_permission_sync_generator_task env c w)) = taskset w \<and>
     generator_complete (snd (connector_permission_sync_generator_task env c w))
       = generator_complete w \<and>
     active_fences (snd (connector_permission_sync_generator_task env c w)) = active_fences w \<and>
     calls (snd (connector_permission_sync_generator_task env c w)) =
       calls w @ (if lock_owned env then [LockRelease (SyncLock c)] else [])"
proof -
  have body: "sync_body env c w = (Inr (), w)"
    using assms by (simp add: sync_body_def)
  show ?thesis
    using assms(1,2)
    by (simp add: connector_permission_sync_generator_task_def body Let_def log_call_def)
qed

theorem missing_sync_config_frame_witness:
  "fst (connector_permission_sync_generator_task (env_for_source ''slack'') 7 fenced_world)
     = Inr ()
   \<and> fence (snd (connector_permission_sync_generator_task (env_for_source ''slack'') 7
        fenced_world)) = fence fenced_world
   \<and> active_signal (snd (connector_permission_sync_generator_task (env_for_source ''slack'') 7
        fenced_world)) = active_signal fenced_world
   \<and> taskset (snd (connector_permission_sync_generator_task (env_for_source ''slack'') 7
        fenced_world)) = taskset fenced_world
   \<and> generator_complete (snd (connector_permission_sync_generator_task
        (env_for_source ''slack'') 7 fenced_world)) = generator_complete fenced_world
   \<and> calls (snd (connector_permission_sync_generator_task (env_for_source ''slack'') 7
        fenced_world)) = [LockRelease (SyncLock 7)]"
  using missing_sync_config_frame [OF env_for_source_simps(1) env_for_source_simps(2)
      env_for_source_simps(4) env_for_source_simps(5),
      where src1 = "''slack''" and w = fenced_world]
  by (simp add: env_for_source_simps example_registry_def fenced_world_simps)

lemma blocking_timeout: "LOCK_TIMEOUT / 2 = 15"
  by (simp add: LOCK_TIMEOUT_def)

lemma example_creator_env_simps:
  "lock_acquire_blocking example_creator_env 15 = Inr True"
  "function_lock_owned example_creator_env = Inr True"
  "function_lock_release example_creator_env = None"
  by (simp_all add: example_creator_env_def)

lemma wait_random_exponential_bounds:
  "0 \<le> wait_random_exponential 1 DOCUMENT_PERMISSIONS_UPDATE_MAX_WAIT n u"
  "wait_random_exponential 1 DOCUMENT_PERMISSIONS_UPDATE_MAX_WAIT n u \<le> 60"
  "wait_random_exponential 1 DOCUMENT_PERMISSIONS_UPDATE_MAX_WAIT n u \<le> 2 ^ (n - 1)"
proof -
  let ?a = "max 0 (min 1 u)"
  let ?b = "max 0 (min (1 * 2 ^ (n - 1)) (60::rat))"
  have a: "0 \<le> ?a" "?a \<le> 1" by simp_all
  have b: "0 \<le> ?b" "?b \<le> 60" "?b \<le> 2 ^ (n - 1)" by simp_all
  have ab: "?a * ?b \<le> 1 * ?b" using a b(1) by (intro mult_right_mono) simp_all
  have w: "wait_random_exponential 1 DOCUMENT_PERMISSIONS_UPDATE_MAX_WAIT n u = ?a * ?b"
    by (simp add: wait_random_exponential_def wait_exponential_def
          DOCUMENT_PERMISSIONS_UPDATE_MAX_WAIT_def)
  show "0 \<le> wait_random_exponential 1 DOCUMENT_PERMISSIONS_UPDATE_MAX_WAIT n u"
    unfolding w using a(1) b(1) by (rule mult_nonneg_nonneg)
  show "wait_random_exponential 1 DOCUMENT_PERMISSIONS_UPDATE_MAX_WAIT n u \<le> 60"
    unfolding w using ab b(2) by linarith
  show "wait_random_exponential 1 DOCUMENT_PERMISSIONS_UPDATE_MAX_WAIT n u \<le> 2 ^ (n - 1)"
    unfolding w using ab b(3) by linarith
qed

lemma retrying_policy:
  assumes "retrying R attempts n p s ci cr = Some (r, sleeps)"
  shows "\<exists>retried final rest.
     attempts = retried @ final # rest \<and> length sleeps = length retried \<and>
     (\<forall>a \<in> set retried. \<exists>e.
         document_update_permissions_attempt (attempt_db a) p s ci cr = Inl e \<and> R e \<and>
         seconds_since_start a < 600) \<and>
     (\<forall>k < length sleeps. 0 \<le> sleeps ! k \<and> sleeps ! k \<le> 60 \<and> sleeps ! k \<le> 2 ^ (n + k - 1)) \<and>
     (case document_update_permissions_attempt (attempt_db final) p s ci cr of
        Inr v \<Rightarrow> r = Inr v
      | Inl e \<Rightarrow> if R e then 600 \<le> seconds_since_start final \<and> r = Inl (RetryError e)
                 else r = Inl e)"
  using assms
proof (induction attempts arbitrary: n r sleeps)
  case Nil
  then show ?case by simp
next
  case (Cons a rest)
  let ?out = "document_update_permissions_attempt (attempt_db a) p s ci cr"
  show ?case
  proof (cases "\<exists>e. ?out = Inl e \<and> R e \<and> seconds_since_start a < 600")
    case False
    then have stop: "sleeps = []" and fin: "(case ?out of
        Inr v \<Rightarrow> r = Inr v
      | Inl e \<Rightarrow> if R e then 600 \<le> seconds_since_start a \<and> r = Inl (RetryError e)
                 else r = Inl e)"
      using Cons.prems
      by (auto simp: stop_after_delay_def DOCUMENT_PERMISSIONS_UPDATE_STOP_AFTER_def
            split: sum.splits if_splits)
    show ?thesis
      using stop fin by (intro exI [of _ "[]"] exI [of _ a] exI [of _ rest]) simp
  next
    case True
    then obtain e where e: "?out = Inl e" "R e" "seconds_since_start a < 600" by blast
    from Cons.prems e obtain sleeps' where
      rec: "retrying R rest (n + 1) p s ci cr = Some (r, sleeps')"
      and sl: "sleeps = wait_random_exponential 1 DOCUMENT_PERMISSIONS_UPDATE_MAX_WAIT n
                 (random_draw a) # sleeps'"
      by (auto simp: stop_after_delay_def DOCUMENT_PERMISSIONS_UPDATE_STOP_AFTER_def
            split: option.splits)
    from Cons.IH [OF rec] obtain retried final rest' where
      ih: "rest = retried @ final # rest'" "length sleeps' = length retried"
        "\<forall>a \<in> set retried. \<exists>e.
           document_update_permissions_attempt (attempt_db a) p s ci cr = Inl e \<and> R e \<and>
           seconds_since_start a < 600"
        "\<forall>k < length sleeps'. 0 \<le> sleeps' ! k \<and> sleeps' ! k \<le> 60 \<and>
           sleeps' ! k \<le> 2 ^ (n + 1 + k - 1)"
        "(case document_update_permissions_attempt (attempt_db final) p s ci cr of
            Inr v \<Rightarrow> r = Inr v
          | Inl e \<Rightarrow> if R e then 600 \<le> seconds_since_start final \<and> r = Inl (RetryError e)
                     else r = Inl e)"
      by blast
    have bounds: "\<forall>k < length sleeps. 0 \<le> sleeps ! k \<and> sleeps ! k \<le> 60 \<and>
        sleeps ! k \<le> 2 ^ (n + k - 1)"
    proof (intro allI impI)
      fix k assume k: "k < length sleeps"
      show "0 \<le> sleeps ! k \<and> sleeps ! k \<le> 60 \<and> sleeps ! k \<le> 2 ^ (n + k - 1)"
      proof (cases k)
        case 0
        then show ?thesis
          unfolding sl using wait_random_exponential_bounds [of n "random_draw a"] by simp
      next
        case (Suc j)
        then have "j < length sleeps'" using k sl by simp
        with ih(4) have "0 \<le> sleeps' ! j \<and> sleeps' ! j \<le> 60 \<and>
           sleeps' ! j \<le> 2 ^ (n + 1 + j - 1)" by blast
        then show ?thesis unfolding sl Suc by simp
      qed
    qed
    show ?thesis
      using ih(1,2,3,5) e sl bounds
      by (intro exI [of _ "a # retried"] exI [of _ final] exI [of _ rest']) auto
  qed
qed

lemma retrying_ends:
  assumes "\<forall>a \<in> set retried. \<exists>e.
      document_update_permissions_attempt (attempt_db a) p s ci cr = Inl e \<and> R e \<and>
      seconds_since_start a < 600"
    and "\<not> (\<exists>e. document_update_permissions_attempt (attempt_db final) p s ci cr = Inl e \<and>
           R e \<and> seconds_since_start final < 600)"
  shows "\<exists>sleeps. retrying R (retried @ final # rest) n p s ci cr =
        Some ((case document_update_permissions_attempt (attempt_db final) p s ci cr of
                 Inr v \<Rightarrow> Inr v
               | Inl e \<Rightarrow> if R e then Inl (RetryError e) else Inl e), sleeps) \<and>
      length sleeps = length retried \<and>
      (\<forall>k < length retried. sleeps ! k =
          wait_random_exponential 1 DOCUMENT_PERMISSIONS_UPDATE_MAX_WAIT (n + k)
            (random_draw (retried ! k)))"
  using assms(1)
proof (induction retried arbitrary: n)
  case Nil
  show ?case
    using assms(2)
    by (cases "document_update_permissions_attempt (attempt_db final) p s ci cr")
       (auto simp: stop_after_delay_def DOCUMENT_PERMISSIONS_UPDATE_STOP_AFTER_def)
next
  case (Cons a retried)
  from Cons.prems obtain e where e:
    "document_update_permissions_attempt (attempt_db a) p s ci cr = Inl e" "R e"
    "seconds_since_start a < 600" by auto
  from Cons.prems have "\<forall>a \<in> set retried. \<exists>e.
      document_update_permissions_attempt (attempt_db a) p s ci cr = Inl e \<and> R e \<and>
      seconds_since_start a < 600" by simp
  from Cons.IH [OF this, of "n + 1"] obtain sleeps where
    run: "retrying R (retried @ final # rest) (n + 1) p s ci cr =
        Some ((case document_update_permissions_attempt (attempt_db final) p s ci cr of
                 Inr v \<Rightarrow> Inr v
               | Inl e \<Rightarrow> if R e then Inl (RetryError e) else Inl e), sleeps)"
    and len: "length sleeps = length retried"
    and each: "\<forall>k < length retried. sleeps ! k =
          wait_random_exponential 1 DOCUMENT_PERMISSIONS_UPDATE_MAX_WAIT (n + 1 + k)
            (random_draw (retried ! k))"
    by blast
  let ?sleeps = "wait_random_exponential 1 DOCUMENT_PERMISSIONS_UPDATE_MAX_WAIT n
                   (random_draw a) # sleeps"
  have "retrying R ((a # retried) @ final # rest) n p s ci cr =
        Some ((case document_update_permissions_attempt (attempt_db final) p s ci cr of
                 Inr v \<Rightarrow> Inr v
               | Inl e \<Rightarrow> if R e then Inl (RetryError e) else Inl e), ?sleeps)"
    using e run
    by (simp add: stop_after_delay_def DOCUMENT_PERMISSIONS_UPDATE_STOP_AFTER_def)
  moreover have "length ?sleeps = length (a # retried)" using len by simp
  moreover have "\<forall>k < length (a # retried). ?sleeps ! k =
          wait_random_exponential 1 DOCUMENT_PERMISSIONS_UPDATE_MAX_WAIT (n + k)
            (random_draw ((a # retried) ! k))"
  proof (intro allI impI)
    fix k assume "k < length (a # retried)"
    then show "?sleeps ! k =
          wait_random_exponential 1 DOCUMENT_PERMISSIONS_UPDATE_MAX_WAIT (n + k)
            (random_draw ((a # retried) ! k))"
      using each by (cases k) simp_all
  qed
  ultimately show ?case by blast
qed

lemma retrying_runs_out:
  "\<forall>a \<in> set attempts. \<exists>e.
      document_update_permissions_attempt (attempt_db a) p s ci cr = Inl e \<and> R e \<and>
      seconds_since_start a < 600 \<Longrightarrow>
   retrying R attempts n p s ci cr = None"
proof (induction attempts arbitrary: n)
  case Nil
  then show ?case by simp
next
  case (Cons a attempts)
  from Cons.prems obtain e where
    "document_update_permissions_attempt (attempt_db a) p s ci cr = Inl e" "R e"
    "seconds_since_start a < 600" by auto
  moreover from Cons.prems Cons.IH have "retrying R attempts (n + 1) p s ci cr = None"
    by simp
  ultimately show ?case
    by (simp add: stop_after_delay_def DOCUMENT_PERMISSIONS_UPDATE_STOP_AFTER_def)
qed

lemma example_attempt_outcomes:
  "document_update_permissions_attempt deadlocked_db p ''confluence'' ci cr
     = Inl (OtherError ''deadlock detected'')"
  "document_update_permissions_attempt constraint_db p ''confluence'' ci cr
     = Inl (OtherError ''constraint violated'')"
  "document_update_permissions_attempt ok_db p ''confluence'' ci cr = Inr True"
  "document_update_permissions_attempt ok_db p ''wiki'' ci cr
     = Inl (ValueError ''not a valid DocumentSource'')"
  by (simp_all add: document_update_permissions_attempt_def deadlocked_db_def constraint_db_def
        ok_db_def)

lemma example_waits:
  "wait_random_exponential 1 DOCUMENT_PERMISSIONS_UPDATE_MAX_WAIT (Suc 0) (1 / 2) = 1 / 2"
  "wait_random_exponential 1 DOCUMENT_PERMISSIONS_UPDATE_MAX_WAIT (Suc (Suc 0)) 1 = 2"
  by (simp_all add: wait_random_exponential_def wait_exponential_def
        DOCUMENT_PERMISSIONS_UPDATE_MAX_WAIT_def)

text \<open>
  C8 (as stated, refuted). When \<^verbatim>\<open>send_task\<close> raises, the function returns
  \<^verbatim>\<open>None\<close>, yet the fence it wrote before the call is still there; and when
  \<^verbatim>\<open>lock.acquire\<close>, which stands ahead of the \<^verbatim>\<open>try\<close> statement, raises,
  the exception reaches the caller.
\<close>

theorem creation_guards_counterexample:
  "fst (try_creating_permissions_sync_task
          (example_creator_env\<lparr>send_task := (\<lambda>_. Inl (OtherError ''broker unreachable''))\<rparr>)
          7 unfenced_world) = Inr None
   \<and> fence (snd (try_creating_permissions_sync_task
          (example_creator_env\<lparr>send_task := (\<lambda>_. Inl (OtherError ''broker unreachable''))\<rparr>)
          7 unfenced_world)) 7
       = Some (WellFormed \<lparr> payload_id = ''abc123'', submitted = 10, started = None,
            celery_task_id = None \<rparr>)
   \<and> try_creating_permissions_sync_task
          (example_creator_env\<lparr>lock_acquire_blocking :=
             (\<lambda>_. Inl (OtherError ''redis connection lost''))\<rparr>)
          7 unfenced_world
       = (Inl (OtherError ''redis connection lost''), unfenced_world)"
  by (simp add: try_creating_permissions_sync_task_def blocking_timeout example_creator_env_def
        creation_body_def fenced_def unfenced_world_def generator_clear_def taskset_clear_def
        set_active_def set_fence_def log_call_def Let_def)

text \<open>
  C8 (amended). \<^verbatim>\<open>try_creating_permissions_sync_task\<close> returns \<^verbatim>\<open>None\<close> and
  leaves the world as it was when the function lock is not acquired within the blocking
  timeout of 15 seconds; it returns \<^verbatim>\<open>None\<close>, with the release of the lock as its
  only call, when the permissions, delete or prune fence of the pair is set; it returns
  \<^verbatim>\<open>None\<close> when its body raises; and it raises nothing as long as the lock
  operations outside the body raise nothing. An exception of \<^verbatim>\<open>lock.acquire\<close>, or
  of \<^verbatim>\<open>lock.owned()\<close> or \<^verbatim>\<open>lock.release()\<close> in the \<^verbatim>\<open>finally\<close> clause,
  reaches the caller.
\<close>

theorem creation_guards:
  "(lock_acquire_blocking env 15 = Inr False \<longrightarrow>
      try_creating_permissions_sync_task env c w = (Inr None, w))
   \<and> (lock_acquire_blocking env 15 = Inr True \<and>
        (fenced c w \<or> delete_fenced w c \<or> prune_fenced w c) \<and>
        function_lock_owned env = Inr owned \<and> function_lock_release env = None \<longrightarrow>
        try_creating_permissions_sync_task env c w =
          (Inr None,
           if owned
           then log_call (LockRelease (FunctionLock ''try_generate_permissions_sync_tasks'')) w
           else w))
   \<and> (lock_acquire_blocking env 15 = Inr True \<and> fst (creation_body env c w) = Inl e \<and>
        function_lock_owned env = Inr owned \<and> function_lock_release env = None \<longrightarrow>
        fst (try_creating_permissions_sync_task env c w) = Inr None)
   \<and> (lock_acquire_blocking env 15 = Inr acquired \<and>
        function_lock_owned env = Inr owned \<and> function_lock_release env = None \<longrightarrow>
        (\<exists>r. fst (try_creating_permissions_sync_task env c w) = Inr r))
   \<and> (lock_acquire_blocking env 15 = Inl e \<longrightarrow>
        try_creating_permissions_sync_task env c w = (Inl e, w))
   \<and> (lock_acquire_blocking env 15 = Inr True \<and> function_lock_owned env = Inl e \<longrightarrow>
        fst (try_creating_permissions_sync_task env c w) = Inl e)
   \<and> (lock_acquire_blocking env 15 = Inr True \<and> function_lock_owned env = Inr True \<and>
        function_lock_release env = Some e \<longrightarrow>
        fst (try_creating_permissions_sync_task env c w) = Inl e)"
proof -
  obtain r w1 where body: "creation_body env c w = (r, w1)"
    by (cases "creation_body env c w") blast
  have guard: "fenced c w \<or> delete_fenced w c \<or> prune_fenced w c \<Longrightarrow>
      creation_body env c w = (Inr None, w)"
    by (auto simp: creation_body_def)
  have a: "lock_acquire_blocking env 15 = Inr False \<longrightarrow>
      try_creating_permissions_sync_task env c w = (Inr None, w)"
    by (simp add: try_creating_permissions_sync_task_def blocking_timeout)
  have b: "lock_acquire_blocking env 15 = Inr True \<and>
        (fenced c w \<or> delete_fenced w c \<or> prune_fenced w c) \<and>
        function_lock_owned env = Inr owned \<and> function_lock_release env = None \<longrightarrow>
        try_creating_permissions_sync_task env c w =
          (Inr None,
           if owned
           then log_call (LockRelease (FunctionLock ''try_generate_permissions_sync_tasks'')) w
           else w)"
    using guard by (auto simp: try_creating_permissions_sync_task_def blocking_timeout Let_def)
  have c: "lock_acquire_blocking env 15 = Inr True \<and> fst (creation_body env c w) = Inl e \<and>
        function_lock_owned env = Inr owned \<and> function_lock_release env = None \<longrightarrow>
        fst (try_creating_permissions_sync_task env c w) = Inr None"
    using body by (auto simp: try_creating_permissions_sync_task_def blocking_timeout Let_def)
  have d: "lock_acquire_blocking env 15 = Inr acquired \<and>
        function_lock_owned env = Inr owned \<and> function_lock_release env = None \<longrightarrow>
        (\<exists>r. fst (try_creating_permissions_sync_task env c w) = Inr r)"
    using body
    by (cases r) (auto simp: try_creating_permissions_sync_task_def blocking_timeout Let_def)
  have e: "lock_acquire_blocking env 15 = Inl e \<longrightarrow>
        try_creating_permissions_sync_task env c w = (Inl e, w)"
    by (simp add: try_creating_permissions_sync_task_def blocking_timeout)
  have f: "lock_acquire_blocking env 15 = Inr True \<and> function_lock_owned env = Inl e \<longrightarrow>
        fst (try_creating_permissions_sync_task env c w) = Inl e"
    using body by (auto simp: try_creating_permissions_sync_task_def blocking_timeout Let_def)
  have g: "lock_acquire_blocking env 15 = Inr True \<and> function_lock_owned env = Inr True \<and>
        function_lock_release env = Some e \<longrightarrow>
        fst (try_creating_permissions_sync_task env c w) = Inl e"
    using body by (auto simp: try_creating_permissions_sync_task_def blocking_timeout Let_def)
  from a b c d e f g show ?thesis by blast
qed

theorem creation_guards_witness:
  "try_creating_permissions_sync_task
      (example_creator_env\<lparr>lock_acquire_blocking := (\<lambda>t. Inr (20 \<le> t))\<rparr>)
      7 unfenced_world = (Inr None, unfenced_world)
   \<and> try_creating_permissions_sync_task example_creator_env 7 fenced_world
       = (Inr None, fenced_world\<lparr>calls :=
            [LockRelease (FunctionLock ''try_generate_permissions_sync_tasks'')]\<rparr>)
   \<and> try_creating_permissions_sync_task example_creator_env 7
        (unfenced_world\<lparr>prune_fenced := (\<lambda>c. c = 7)\<rparr>)
       = (Inr None, unfenced_world\<lparr>prune_fenced := (\<lambda>c. c = 7), calls :=
            [LockRelease (FunctionLock ''try_generate_permissions_sync_tasks'')]\<rparr>)
   \<and> fst (try_creating_permissions_sync_task
          (example_creator_env\<lparr>send_task := (\<lambda>_. Inl (OtherError ''broker unreachable''))\<rparr>)
          7 unfenced_world) = Inr None
   \<and> try_creating_permissions_sync_task
          (example_creator_env\<lparr>lock_acquire_blocking :=
             (\<lambda>_. Inl (OtherError ''redis connection lost''))\<rparr>)
          7 unfenced_world
       = (Inl (OtherError ''redis connection lost''), unfenced_world)
   \<and> fst (try_creating_permissions_sync_task
          (example_creator_env\<lparr>function_lock_owned := Inl (OtherError ''redis connection lost'')\<rparr>)
          7 unfenced_world) = Inl (OtherError ''redis connection lost'')
   \<and> fst (try_creating_permissions_sync_task
          (example_creator_env\<lparr>function_lock_release := Some LockError\<rparr>)
          7 unfenced_world) = Inl LockError"
proof -
  have a: "try_creating_permissions_sync_task
      (example_creator_env\<lparr>lock_acquire_blocking := (\<lambda>t. Inr (20 \<le> t))\<rparr>)
      7 unfenced_world = (Inr None, unfenced_world)"
    using creation_guards [where env = "example_creator_env\<lparr>lock_acquire_blocking :=
        (\<lambda>t. Inr (20 \<le> t))\<rparr>" and c = 7 and w = unfenced_world]
    by simp
  have b: "try_creating_permissions_sync_task example_creator_env 7 fenced_world
       = (Inr None, fenced_world\<lparr>calls :=
            [LockRelease (FunctionLock ''try_generate_permissions_sync_tasks'')]\<rparr>)"
    using creation_guards [where env = example_creator_env and c = 7 and w = fenced_world
        and owned = True]
    by (simp add: example_creator_env_simps fenced_def fenced_world_simps log_call_def)
  have c: "try_creating_permissions_sync_task example_creator_env 7
        (unfenced_world\<lparr>prune_fenced := (\<lambda>c. c = 7)\<rparr>)
       = (Inr None, unfenced_world\<lparr>prune_fenced := (\<lambda>c. c = 7), calls :=
            [LockRelease (FunctionLock ''try_generate_permissions_sync_tasks'')]\<rparr>)"
    using creation_guards [where env = example_creator_env and c = 7
        and w = "unfenced_world\<lparr>prune_fenced := (\<lambda>c. c = 7)\<rparr>" and owned = True]
    by (simp add: example_creator_env_simps log_call_def unfenced_world_def)
  have body: "fst (creation_body
      (example_creator_env\<lparr>send_task := (\<lambda>_. Inl (OtherError ''broker unreachable''))\<rparr>)
      7 unfenced_world) = Inl (OtherError ''broker unreachable'')"
    by (simp add: creation_body_def fenced_def unfenced_world_def Let_def)
  have d: "fst (try_creating_permissions_sync_task
          (example_creator_env\<lparr>send_task := (\<lambda>_. Inl (OtherError ''broker unreachable''))\<rparr>)
          7 unfenced_world) = Inr None"
    using creation_guards [where env =
          "example_creator_env\<lparr>send_task := (\<lambda>_. Inl (OtherError ''broker unreachable''))\<rparr>"
        and c = 7 and w = unfenced_world and e = "OtherError ''broker unreachable''"
        and owned = True] body
    by (simp add: example_creator_env_def)
  have e: "try_creating_permissions_sync_task
          (example_creator_env\<lparr>lock_acquire_blocking :=
             (\<lambda>_. Inl (OtherError ''redis connection lost''))\<rparr>)
          7 unfenced_world
       = (Inl (OtherError ''redis connection lost''), unfenced_world)"
    using creation_guards [where env = "example_creator_env\<lparr>lock_acquire_blocking :=
             (\<lambda>_. Inl (OtherError ''redis connection lost''))\<rparr>"
        and c = 7 and w = unfenced_world and e = "OtherError ''redis connection lost''"]
    by simp
  have f: "fst (try_creating_permissions_sync_task
          (example_creator_env\<lparr>function_lock_owned := Inl (OtherError ''redis connection lost'')\<rparr>)
          7 unfenced_world) = Inl (OtherError ''redis connection lost'')"
    using creation_guards [where env = "example_creator_env\<lparr>function_lock_owned :=
             Inl (OtherError ''redis connection lost'')\<rparr>"
        and c = 7 and w = unfenced_world and e = "OtherError ''redis connection lost''"]
    by (simp add: example_creator_env_def)
  have g: "fst (try_creating_permissions_sync_task
          (example_creator_env\<lparr>function_lock_release := Some LockError\<rparr>)
          7 unfenced_world) = Inl LockError"
    using creation_guards [where env = "example_creator_env\<lparr>function_lock_release :=
             Some LockError\<rparr>" and c = 7 and w = unfenced_world and e = LockError]
    by (simp add: example_creator_env_def)
  from a b c d e f g show ?thesis by simp
qed

text \<open>
  C6. Let the first attempts of a call of the decorated
  \<^verbatim>\<open>document_update_permissions\<close> each raise an exception accepted by
  \<^verbatim>\<open>is_retryable_sqlalchemy_error\<close> less than 600 seconds after the start, and let
  the next attempt be of another kind. Then the call ends at that attempt: with its
  result when it returns, with its exception as it is when the exception is not
  retryable, and with a \<^verbatim>\<open>RetryError\<close> around its exception when that is retryable
  and 600 seconds have passed. Before that the call slept once after each earlier
  attempt, after the \<open>k\<close>-th for the random draw's share of \<open>min 60 (2 ^ k)\<close> seconds,
  which lies between 0 and 60. A call ends whenever some attempt is of that other kind,
  and only the attempts running out beforehand leaves it without a result. Conversely,
  every call that ends retried only attempts that raised a retryable exception before
  600 seconds.
\<close>

theorem upserter_retry_policy:
  "(attempts = retried @ final # rest \<and>
    (\<forall>a \<in> set retried. \<exists>e.
        document_update_permissions_attempt (attempt_db a) p s ci cr = Inl e \<and> R e \<and>
        seconds_since_start a < 600) \<and>
    \<not> (\<exists>e. document_update_permissions_attempt (attempt_db final) p s ci cr = Inl e \<and>
           R e \<and> seconds_since_start final < 600) \<longrightarrow>
      (\<exists>sleeps. document_update_permissions R attempts p s ci cr =
          Some ((case document_update_permissions_attempt (attempt_db final) p s ci cr of
                   Inr v \<Rightarrow> Inr v
                 | Inl e \<Rightarrow> if R e then Inl (RetryError e) else Inl e), sleeps) \<and>
        length sleeps = length retried \<and>
        (\<forall>k < length retried.
            sleeps ! k = wait_random_exponential 1 DOCUMENT_PERMISSIONS_UPDATE_MAX_WAIT (Suc k)
                           (random_draw (retried ! k)) \<and>
            0 \<le> sleeps ! k \<and> sleeps ! k \<le> 60 \<and> sleeps ! k \<le> 2 ^ k)))
   \<and> ((\<exists>a \<in> set attempts.
         \<not> (\<exists>e. document_update_permissions_attempt (attempt_db a) p s ci cr = Inl e \<and>
                R e \<and> seconds_since_start a < 600)) \<longrightarrow>
        document_update_permissions R attempts p s ci cr \<noteq> None)
   \<and> ((\<forall>a \<in> set attempts. \<exists>e.
          document_update_permissions_attempt (attempt_db a) p s ci cr = Inl e \<and> R e \<and>
          seconds_since_start a < 600) \<longrightarrow>
        document_update_permissions R attempts p s ci cr = None)
   \<and> (document_update_permissions R attempts p s ci cr = Some (r, waits) \<longrightarrow>
        (\<exists>tried last others.
           attempts = tried @ last # others \<and> length waits = length tried \<and>
           (\<forall>a \<in> set tried. \<exists>e.
               document_update_permissions_attempt (attempt_db a) p s ci cr = Inl e \<and> R e \<and>
               seconds_since_start a < 600) \<and>
           (\<forall>k < length waits. 0 \<le> waits ! k \<and> waits ! k \<le> 60 \<and> waits ! k \<le> 2 ^ k) \<and>
           (case document_update_permissions_attempt (attempt_db last) p s ci cr of
              Inr v \<Rightarrow> r = Inr v
            | Inl e \<Rightarrow> if R e then 600 \<le> seconds_since_start last \<and> r = Inl (RetryError e)
                       else r = Inl e)))"
proof -
  let ?retry = "\<lambda>a. \<exists>e. document_update_permissions_attempt (attempt_db a) p s ci cr = Inl e \<and>
                     R e \<and> seconds_since_start a < 600"
  have ends: "\<exists>sleeps. document_update_permissions R (xs @ x # ys) p s ci cr =
          Some ((case document_update_permissions_attempt (attempt_db x) p s ci cr of
                   Inr v \<Rightarrow> Inr v
                 | Inl e \<Rightarrow> if R e then Inl (RetryError e) else Inl e), sleeps) \<and>
        length sleeps = length xs \<and>
        (\<forall>k < length xs.
            sleeps ! k = wait_random_exponential 1 DOCUMENT_PERMISSIONS_UPDATE_MAX_WAIT (Suc k)
                           (random_draw (xs ! k)) \<and>
            0 \<le> sleeps ! k \<and> sleeps ! k \<le> 60 \<and> sleeps ! k \<le> 2 ^ k)"
    if xs: "\<forall>a \<in> set xs. ?retry a" and x: "\<not> ?retry x" for xs x ys
  proof -
    from retrying_ends [OF xs x, of ys 1] obtain sleeps where
      run: "retrying R (xs @ x # ys) 1 p s ci cr =
          Some ((case document_update_permissions_attempt (attempt_db x) p s ci cr of
                   Inr v \<Rightarrow> Inr v
                 | Inl e \<Rightarrow> if R e then Inl (RetryError e) else Inl e), sleeps)"
      and len: "length sleeps = length xs"
      and each: "\<forall>k < length xs. sleeps ! k =
          wait_random_exponential 1 DOCUMENT_PERMISSIONS_UPDATE_MAX_WAIT (1 + k)
            (random_draw (xs ! k))"
      by blast
    have "\<forall>k < length xs.
            sleeps ! k = wait_random_exponential 1 DOCUMENT_PERMISSIONS_UPDATE_MAX_WAIT (Suc k)
                           (random_draw (xs ! k)) \<and>
            0 \<le> sleeps ! k \<and> sleeps ! k \<le> 60 \<and> sleeps ! k \<le> 2 ^ k"
      using each wait_random_exponential_bounds [of "Suc k" for k] by simp
    with run len show ?thesis
      by (auto simp: document_update_permissions_def)
  qed
  have a: "attempts = retried @ final # rest \<and> (\<forall>a \<in> set retried. ?retry a) \<and>
      \<not> ?retry final \<longrightarrow>
      (\<exists>sleeps. document_update_permissions R attempts p s ci cr =
          Some ((case document_update_permissions_attempt (attempt_db final) p s ci cr of
                   Inr v \<Rightarrow> Inr v
                 | Inl e \<Rightarrow> if R e then Inl (RetryError e) else Inl e), sleeps) \<and>
        length sleeps = length retried \<and>
        (\<forall>k < length retried.
            sleeps ! k = wait_random_exponential 1 DOCUMENT_PERMISSIONS_UPDATE_MAX_WAIT (Suc k)
                           (random_draw (retried ! k)) \<and>
            0 \<le> sleeps ! k \<and> sleeps ! k \<le> 60 \<and> sleeps ! k \<le> 2 ^ k))"
    using ends by blast
  have b: "(\<exists>a \<in> set attempts. \<not> ?retry a) \<longrightarrow>
        document_update_permissions R attempts p s ci cr \<noteq> None"
  proof
    assume "\<exists>a \<in> set attempts. \<not> ?retry a"
    then obtain xs x ys where "attempts = xs @ x # ys" "\<not> ?retry x" "\<forall>a \<in> set xs. \<not> \<not> ?retry a"
      using split_list_first_prop [of attempts "\<lambda>a. \<not> ?retry a"] by blast
    then have "attempts = xs @ x # ys" "\<not> ?retry x" "\<forall>a \<in> set xs. ?retry a" by blast+
    with ends [of xs x ys] show "document_update_permissions R attempts p s ci cr \<noteq> None"
      by auto
  qed
  have c: "(\<forall>a \<in> set attempts. ?retry a) \<longrightarrow>
        document_update_permissions R attempts p s ci cr = None"
    using retrying_runs_out [of attempts p s ci cr R 1]
    by (simp add: document_update_permissions_def)
  have d: "document_update_permissions R attempts p s ci cr = Some (r, waits) \<longrightarrow>
        (\<exists>tried last others.
           attempts = tried @ last # others \<and> length waits = length tried \<and>
           (\<forall>a \<in> set tried. ?retry a) \<and>
           (\<forall>k < length waits. 0 \<le> waits ! k \<and> waits ! k \<le> 60 \<and> waits ! k \<le> 2 ^ k) \<and>
           (case document_update_permissions_attempt (attempt_db last) p s ci cr of
              Inr v \<Rightarrow> r = Inr v
            | Inl e \<Rightarrow> if R e then 600 \<le> seconds_since_start last \<and> r = Inl (RetryError e)
                       else r = Inl e))"
  proof
    assume "document_update_permissions R attempts p s ci cr = Some (r, waits)"
    then have "retrying R attempts 1 p s ci cr = Some (r, waits)"
      by (simp add: document_update_permissions_def)
    from retrying_policy [OF this] show "\<exists>tried last others.
           attempts = tried @ last # others \<and> length waits = length tried \<and>
           (\<forall>a \<in> set tried. ?retry a) \<and>
           (\<forall>k < length waits. 0 \<le> waits ! k \<and> waits ! k \<le> 60 \<and> waits ! k \<le> 2 ^ k) \<and>
           (case document_update_permissions_attempt (attempt_db last) p s ci cr of
              Inr v \<Rightarrow> r = Inr v
            | Inl e \<Rightarrow> if R e then 600 \<le> seconds_since_start last \<and> r = Inl (RetryError e)
                       else r = Inl e)"
      by simp
  qed
  from a b c d show ?thesis by blast
qed

theorem upserter_retry_policy_witness:
  "(\<exists>sleeps. document_update_permissions example_retryable example_attempts doc_a
        ''confluence'' 70 700 = Some (Inr True, sleeps) \<and>
      length sleeps = 2 \<and> sleeps ! 0 = 1 / 2 \<and> sleeps ! 1 = 2)
   \<and> document_update_permissions example_retryable
        [\<lparr> attempt_db = deadlocked_db, seconds_since_start = 601, random_draw = 1 \<rparr>]
        doc_a ''confluence'' 70 700
      = Some (Inl (RetryError (OtherError ''deadlock detected'')), [])
   \<and> document_update_permissions example_retryable
        [\<lparr> attempt_db = constraint_db, seconds_since_start = 1, random_draw = 1 \<rparr>,
         \<lparr> attempt_db = ok_db, seconds_since_start = 2, random_draw = 1 \<rparr>]
        doc_a ''confluence'' 70 700
      = Some (Inl (OtherError ''constraint violated''), [])
   \<and> document_update_permissions example_retryable
        [\<lparr> attempt_db = ok_db, seconds_since_start = 1, random_draw = 1 \<rparr>]
        doc_a ''wiki'' 70 700
      = Some (Inl (ValueError ''not a valid DocumentSource''), [])
   \<and> document_update_permissions example_retryable
        [\<lparr> attempt_db = deadlocked_db, seconds_since_start = 1, random_draw = 1 \<rparr>,
         \<lparr> attempt_db = deadlocked_db, seconds_since_start = 599, random_draw = 1 \<rparr>]
        doc_a ''confluence'' 70 700
      = None"
proof -
  have a: "\<exists>sleeps. document_update_permissions example_retryable example_attempts doc_a
        ''confluence'' 70 700 = Some (Inr True, sleeps) \<and>
      length sleeps = 2 \<and> sleeps ! 0 = 1 / 2 \<and> sleeps ! 1 = 2"
    using upserter_retry_policy [where R = example_retryable and attempts = example_attempts
        and retried = "[\<lparr> attempt_db = deadlocked_db, seconds_since_start = 1,
                           random_draw = 1 / 2 \<rparr>,
                        \<lparr> attempt_db = deadlocked_db, seconds_since_start = 3,
                           random_draw = 1 \<rparr>]"
        and final = "\<lparr> attempt_db = ok_db, seconds_since_start = 6, random_draw = 0 \<rparr>"
        and rest = "[]" and p = doc_a and s = "''confluence''" and ci = 70 and cr = 700,
        THEN conjunct1]
    by (auto simp: example_attempts_def example_attempt_outcomes example_retryable_def
          example_waits All_less_Suc)
  have b: "document_update_permissions example_retryable
        [\<lparr> attempt_db = deadlocked_db, seconds_since_start = 601, random_draw = 1 \<rparr>]
        doc_a ''confluence'' 70 700
      = Some (Inl (RetryError (OtherError ''deadlock detected'')), [])"
    using upserter_retry_policy [where R = example_retryable
        and attempts = "[\<lparr> attempt_db = deadlocked_db, seconds_since_start = 601,
                            random_draw = 1 \<rparr>]"
        and retried = "[]"
        and final = "\<lparr> attempt_db = deadlocked_db, seconds_since_start = 601,
                        random_draw = 1 \<rparr>"
        and rest = "[]" and p = doc_a and s = "''confluence''" and ci = 70 and cr = 700,
        THEN conjunct1]
    by (auto simp: example_attempt_outcomes example_retryable_def)
  have c: "document_update_permissions example_retryable
        [\<lparr> attempt_db = constraint_db, seconds_since_start = 1, random_draw = 1 \<rparr>,
         \<lparr> attempt_db = ok_db, seconds_since_start = 2, random_draw = 1 \<rparr>]
        doc_a ''confluence'' 70 700
      = Some (Inl (OtherError ''constraint violated''), [])"
    using upserter_retry_policy [where R = example_retryable
        and attempts = "[\<lparr> attempt_db = constraint_db, seconds_since_start = 1,
                            random_draw = 1 \<rparr>,
                         \<lparr> attempt_db = ok_db, seconds_since_start = 2, random_draw = 1 \<rparr>]"
        and retried = "[]"
        and final = "\<lparr> attempt_db = constraint_db, seconds_since_start = 1,
                        random_draw = 1 \<rparr>"
        and rest = "[\<lparr> attempt_db = ok_db, seconds_since_start = 2, random_draw = 1 \<rparr>]"
        and p = doc_a and s = "''confluence''" and ci = 70 and cr = 700, THEN conjunct1]
    by (auto simp: example_attempt_outcomes example_retryable_def)
  have d: "document_update_permissions example_retryable
        [\<lparr> attempt_db = ok_db, seconds_since_start = 1, random_draw = 1 \<rparr>]
        doc_a ''wiki'' 70 700
      = Some (Inl (ValueError ''not a valid DocumentSource''), [])"
    using upserter_retry_policy [where R = example_retryable
        and attempts = "[\<lparr> attempt_db = ok_db, seconds_since_start = 1, random_draw = 1 \<rparr>]"
        and retried = "[]"
        and final = "\<lparr> attempt_db = ok_db, seconds_since_start = 1, random_draw = 1 \<rparr>"
        and rest = "[]" and p = doc_a and s = "''wiki''" and ci = 70 and cr = 700,
        THEN conjunct1]
    by (auto simp: example_attempt_outcomes example_retryable_def)
  have e: "document_update_permissions example_retryable
        [\<lparr> attempt_db = deadlocked_db, seconds_since_start = 1, random_draw = 1 \<rparr>,
         \<lparr> attempt_db = deadlocked_db, seconds_since_start = 599, random_draw = 1 \<rparr>]
        doc_a ''confluence'' 70 700
      = None"
    using upserter_retry_policy [where R = example_retryable
        and attempts = "[\<lparr> attempt_db = deadlocked_db, seconds_since_start = 1,
                            random_draw = 1 \<rparr>,
                         \<lparr> attempt_db = deadlocked_db, seconds_since_start = 599,
                            random_draw = 1 \<rparr>]"
        and p = doc_a and s = "''confluence''" and ci = 70 and cr = 700,
        THEN conjunct2, THEN conjunct2, THEN conjunct1]
    by (simp add: example_attempt_outcomes example_retryable_def)
  from a b c d e show ?thesis by blast
qed

end
